theory Spec2Isabelle
  imports Complex_Main
begin

section \<open>JavaScript values, numbers and errors\<close>

text \<open>
  Values that cross the boundaries of the program: JSON bodies, JSON-RPC results, what the
  wallet provider and the libraries hand back. A number is kept as the exact rational
  value of its double; \<open>JBig\<close> is a \<open>bigint\<close>.
\<close>

datatype jsval =
    JUndefined
  | JNull
  | JBool bool
  | JNum rat
  | JBig int
  | JStr string
  | JObj "(string \<times> jsval) list"
  | JArr "jsval list"

text \<open>JavaScript truthiness, as \<open>if (x)\<close> and \<open>!x\<close> read a value.\<close>

fun truthy :: "jsval \<Rightarrow> bool" where
  "truthy JUndefined = False"
| "truthy JNull = False"
| "truthy (JBool b) = b"
| "truthy (JNum r) = (r \<noteq> 0)"
| "truthy (JBig i) = (i \<noteq> 0)"
| "truthy (JStr s) = (s \<noteq> [])"
| "truthy (JObj _) = True"
| "truthy (JArr _) = True"

text \<open>
  An object thrown by a collaborator (the wallet provider, a library, the transport):
  the code reads its \<open>code\<close> and \<open>message\<close> only.
\<close>

record thrown =
  err_code :: jsval
  err_message :: string

text \<open>The \<open>TypeError\<close> of a property read on \<open>undefined\<close> or \<open>null\<close>.\<close>

definition type_error :: thrown where
  "type_error = \<lparr>err_code = JUndefined, err_message = ''TypeError''\<rparr>"

text \<open>
  A string is kept as the bytes of its UTF-8 encoding: a character of ASCII is one
  \<open>char\<close>, any other character is two to four of them (a surrogate that stands alone
  is the three bytes the same scheme gives it). \<open>string_length\<close> is the \<open>length\<close> of
  the language, the number of UTF-16 code units: two for a character of four bytes, one
  for any other, counted at the first byte of the character. \<open>first_unit\<close> is \<open>s[0]\<close>:
  the first character, or the high surrogate of a first character of four bytes.
\<close>

definition unit_count :: "char \<Rightarrow> nat" where
  "unit_count c =
     (let b = of_char c :: nat
      in if b < 128 then 1 else if b < 192 then 0 else if b < 240 then 1 else 2)"

definition string_length :: "string \<Rightarrow> nat" where
  "string_length s = sum_list (map unit_count s)"

definition first_unit :: "string \<Rightarrow> string" where
  "first_unit s =
     (case map of_char (take 4 s) :: nat list of
        [] \<Rightarrow> []
      | b # bs \<Rightarrow>
          if b < 192 then take 1 s
          else if b < 224 then take 2 s
          else if b < 240 then take 3 s
          else
            (case bs of
               [b1, b2, b3] \<Rightarrow>
                 let cp = (b mod 8) * 262144 + (b1 mod 64) * 4096 + (b2 mod 64) * 64 + b3 mod 64;
                     hs = 55296 + (cp - 65536) div 1024
                 in map char_of [224 + hs div 4096, 128 + hs div 64 mod 64, 128 + hs mod 64]
             | _ \<Rightarrow> take 4 s))"

text \<open>
  \<open>v.key\<close> for the keys the code reads: a \<open>TypeError\<close> on \<open>undefined\<close> and \<open>null\<close>, the
  field of an object (\<open>undefined\<close> when it has none), the \<open>length\<close> of an array or
  a string, \<open>undefined\<close> on the other values.
\<close>

fun get_prop :: "jsval \<Rightarrow> string \<Rightarrow> thrown + jsval" where
  "get_prop JUndefined k = Inl type_error"
| "get_prop JNull k = Inl type_error"
| "get_prop (JObj kvs) k = Inr (case map_of kvs k of None \<Rightarrow> JUndefined | Some v \<Rightarrow> v)"
| "get_prop (JArr xs) k =
     Inr (if k = ''length'' then JNum (of_nat (length xs)) else JUndefined)"
| "get_prop (JStr s) k =
     Inr (if k = ''length'' then JNum (of_nat (string_length s)) else JUndefined)"
| "get_prop _ k = Inr JUndefined"

text \<open>\<open>v[0]\<close>, read after \<open>v.length\<close> did not throw.\<close>

fun first_elem :: "jsval \<Rightarrow> jsval" where
  "first_elem (JArr (x # _)) = x"
| "first_elem (JStr s) = (if s = [] then JUndefined else JStr (first_unit s))"
| "first_elem (JObj kvs) = (case map_of kvs ''0'' of None \<Rightarrow> JUndefined | Some v \<Rightarrow> v)"
| "first_elem _ = JUndefined"

text \<open>
  A JavaScript number: \<open>NaN\<close>, an infinity, or a finite double given by its exact value.
  The comparisons are those of the language: every comparison with \<open>NaN\<close> is false,
  and \<open>!==\<close> is true of it.
\<close>

datatype jsnum = NaN | NegInf | Fin rat | PosInf

fun js_lt :: "jsnum \<Rightarrow> jsnum \<Rightarrow> bool" where
  "js_lt NaN _ = False"
| "js_lt _ NaN = False"
| "js_lt _ NegInf = False"
| "js_lt NegInf _ = True"
| "js_lt PosInf _ = False"
| "js_lt (Fin _) PosInf = True"
| "js_lt (Fin a) (Fin b) = (a < b)"

definition js_le :: "jsnum \<Rightarrow> jsnum \<Rightarrow> bool" where
  "js_le a b = (a \<noteq> NaN \<and> b \<noteq> NaN \<and> (a = b \<or> js_lt a b))"

definition js_gt :: "jsnum \<Rightarrow> jsnum \<Rightarrow> bool" where
  "js_gt a b = js_lt b a"

definition js_strict_neq :: "jsnum \<Rightarrow> jsnum \<Rightarrow> bool" where
  "js_strict_neq a b = (a = NaN \<or> b = NaN \<or> a \<noteq> b)"

text \<open>
  The errors the services raise. Each constructor is one \<open>throw new Error(...)\<close> of the
  source, carrying the interpolated parts of its message; where the source interpolates
  \<open>error.message\<close> of a caught error the constructor carries that error.
  \<open>Rethrown\<close> is a collaborator's error passed on unchanged (\<open>throw error\<close>).
\<close>

datatype err =
    MetaMaskNotInstalled
  | FailedToAddNetwork string
  | FailedToSwitchNetwork string
  | Web3NotInitialized
  | SwitchBeforeTips
  | SwitchBeforeTransactions
  | WalletNotConnected
  | NoConnectedAccounts
  | InvalidTipAmount
  | AmountConversionError
  | InsufficientBalance string string
  | FailedToGetBalance string
  | FailedToSendTip err
  | FailedToGetNetworkInfo string
  | ApiError string
  | NetworkError
  | Rethrown thrown

section \<open>Digit strings\<close>

definition is_digit :: "char \<Rightarrow> bool" where
  "is_digit c = (c \<in> set ''0123456789'')"

definition is_hex_digit :: "char \<Rightarrow> bool" where
  "is_hex_digit c = (c \<in> set ''0123456789abcdefABCDEF'')"

definition digit_char :: "nat \<Rightarrow> char" where
  "digit_char d = ''0123456789abcdef'' ! d"

definition digit_val :: "char \<Rightarrow> nat" where
  "digit_val c =
     (if c \<in> set ''0123456789'' then of_char c - 48
      else if c \<in> set ''abcdef'' then of_char c - 87
      else of_char c - 55)"

text \<open>The value of a digit string in base \<open>b\<close>, most significant digit first.\<close>

definition radix_value :: "nat \<Rightarrow> string \<Rightarrow> nat" where
  "radix_value b s = foldl (\<lambda>a c. b * a + digit_val c) 0 s"

text \<open>\<open>n.toString(b)\<close> of a non-negative integer, for the bases 10 and 16.\<close>

function radix_string :: "nat \<Rightarrow> nat \<Rightarrow> string" where
  "radix_string b n =
     (if n < b \<or> b < 2 then [digit_char n]
      else radix_string b (n div b) @ [digit_char (n mod b)])"
  by pat_completeness auto
termination
  by (relation "measure snd") auto

declare radix_string.simps [simp del]

text \<open>\<open>i.toString(16)\<close> of a \<open>bigint\<close>: a minus sign, then the digits of the magnitude.\<close>

definition toString16 :: "int \<Rightarrow> string" where
  "toString16 i = (if i < 0 then ''-'' else []) @ radix_string 16 (nat \<bar>i\<bar>)"

text \<open>
  \<open>String.prototype.toLowerCase\<close> turns the letters \<open>A\<close> to \<open>Z\<close> of a string of
  ASCII characters into \<open>a\<close> to \<open>z\<close>; of a string with a character outside ASCII
  it is the language's Unicode case mapping of the string, the parameter
  \<open>unicode_lower\<close>.
\<close>

definition lower_char :: "char \<Rightarrow> char" where
  "lower_char c =
     (case map_of (zip ''ABCDEFGHIJKLMNOPQRSTUVWXYZ'' ''abcdefghijklmnopqrstuvwxyz'') c of
        None \<Rightarrow> c
      | Some l \<Rightarrow> l)"

definition is_ascii :: "char \<Rightarrow> bool" where
  "is_ascii c = (of_char c < (128 :: nat))"

definition toLowerCase :: "(string \<Rightarrow> string) \<Rightarrow> string \<Rightarrow> string" where
  "toLowerCase unicode_lower s = (if list_all is_ascii s then map lower_char s else unicode_lower s)"

section \<open>The conversion library\<close>

text \<open>
  The conversions between amounts and base units belong to a library (\<open>ethers\<close>)
  that is not part of the repository's files; \<open>parseSHM\<close> and \<open>formatSHM\<close> hand
  their argument to it unchanged. The three errors of the conversion:
\<close>

definition invalid_value :: thrown where
  "invalid_value = \<lparr>err_code = JStr ''INVALID_ARGUMENT'', err_message = ''invalid value''\<rparr>"

definition too_many_decimals :: thrown where
  "too_many_decimals =
     \<lparr>err_code = JStr ''NUMERIC_FAULT'', err_message = ''too many decimals for format''\<rparr>"

definition overflow :: thrown where
  "overflow = \<lparr>err_code = JStr ''NUMERIC_FAULT'', err_message = ''overflow''\<rparr>"

text \<open>
  Modelled from the spec: \<open>ethers.parseEther\<close>, the library function behind
  \<open>parseSHM\<close>, is missing from the repository's files. The spec: an amount is "a
  decimal token quantity, always carried as a string", which "must convert losslessly
  to its integer base-unit representation and back", and base units are "the decimal
  amount scaled by 10^decimals" (18 decimals for the native token).

  The function reads an optional minus sign, digits, an optional point and digits, with
  one digit at least. Digits after the 18th of the fraction must be zeros, and the
  scaled value must fit 512 bits signed.
\<close>

definition parseEther :: "string \<Rightarrow> thrown + int" where
  "parseEther s =
     (let neg = (s \<noteq> [] \<and> hd s = CHR ''-'');
          s1 = (if neg then tl s else s);
          whole = takeWhile is_digit s1;
          rest = dropWhile is_digit s1;
          well_formed = (rest = [] \<or> (hd rest = CHR ''.'' \<and> list_all is_digit (tl rest)));
          decimal = tl rest
      in if \<not> well_formed \<or> (whole = [] \<and> decimal = []) then Inl invalid_value
         else if \<not> list_all (\<lambda>c. c = CHR ''0'') (drop 18 decimal) then Inl too_many_decimals
         else
           let padded = take 18 (decimal @ replicate (18 - length decimal) CHR ''0'');
               v = int (radix_value 10 ((if whole = [] then ''0'' else whole) @ padded));
               val = (if neg then - v else v)
           in if - (2 ^ 511) \<le> val \<and> val < 2 ^ 511 then Inr val else Inl overflow)"

text \<open>Removing leading zeros, all but the last character of the string.\<close>

fun strip_zeros :: "string \<Rightarrow> string" where
  "strip_zeros (c # d # cs) = (if c = CHR ''0'' then strip_zeros (d # cs) else c # d # cs)"
| "strip_zeros s = s"

text \<open>
  Modelled from the spec: \<open>ethers.formatEther\<close>, the library function behind
  \<open>formatSHM\<close>, is missing from the repository's files. The spec: the base-unit
  integer converts back to the decimal amount, a string.

  The function writes the magnitude in decimal, pads it on the left to 19 digits, puts
  the point before the last 18 digits, and removes the leading zeros of the whole part and
  the trailing zeros of the fraction, leaving one digit in each.
\<close>

definition formatEther :: "int \<Rightarrow> string" where
  "formatEther w =
     (let str = radix_string 10 (nat \<bar>w\<bar>);
          padded = replicate (19 - length str) CHR ''0'' @ str;
          idx = length padded - 18;
          whole = strip_zeros (take idx padded);
          frac = rev (strip_zeros (rev (drop idx padded)))
      in (if w < 0 then ''-'' else []) @ whole @ ''.'' @ frac)"

text \<open>
  \<open>ShardeumAPI.parseSHM\<close> and \<open>formatSHM\<close>. The argument of \<open>formatSHM\<close> is the
  base-unit integer, as \<open>parseSHM\<close> returns it.
\<close>

definition parseSHM :: "string \<Rightarrow> thrown + int" where
  "parseSHM shmAmount = parseEther shmAmount"

definition formatSHM :: "int \<Rightarrow> string" where
  "formatSHM weiAmount = formatEther weiAmount"

text \<open>
  \<open>ShardeumAPI.isValidAddress\<close> returns what the library's \<open>ethers.isAddress\<close> returns;
  the library's check is the parameter \<open>lib_isAddress\<close>.
\<close>

definition ShardeumAPI_isValidAddress :: "(string \<Rightarrow> bool) \<Rightarrow> string \<Rightarrow> bool" where
  "ShardeumAPI_isValidAddress lib_isAddress address = lib_isAddress address"

text \<open>
  The canonical address format in the spec's words ("wrong length, missing prefix,
  non-hex characters" are not of the format): the prefix \<open>0x\<close> and 40 hexadecimal
  digits of either case. It says which strings are well-formed addresses, and it is
  the library check of the examples.
\<close>

definition canonical_address :: "string \<Rightarrow> bool" where
  "canonical_address x =
     (length x = 42 \<and> take 2 x = ''0x'' \<and> list_all is_hex_digit (drop 2 x))"

section \<open>The injected wallet provider\<close>

text \<open>
  \<open>window.ethereum.request({method, params})\<close>: the provider is a collaborator, so its
  answers are a parameter of the model. Every operation returns, next to its result,
  the list of requests it issued, in order.
\<close>

record request =
  rq_method :: string
  rq_params :: "jsval list option"

type_synonym provider = "request \<Rightarrow> thrown + jsval"

definition SHARDEUM_CHAIN_ID :: string where
  "SHARDEUM_CHAIN_ID = ''0x1f93''"

definition SHARDEUM_RPC :: string where
  "SHARDEUM_RPC = ''https://api-testnet.shardeum.org''"

definition switch_request :: request where
  "switch_request =
     \<lparr>rq_method = ''wallet_switchEthereumChain'',
      rq_params = Some [JObj [(''chainId'', JStr SHARDEUM_CHAIN_ID)]]\<rparr>"

definition add_request :: request where
  "add_request =
     \<lparr>rq_method = ''wallet_addEthereumChain'',
      rq_params = Some
        [JObj [(''chainId'', JStr SHARDEUM_CHAIN_ID),
               (''chainName'', JStr ''Shardeum Testnet''),
               (''nativeCurrency'',
                  JObj [(''name'', JStr ''Shardeum''), (''symbol'', JStr ''SHM''),
                        (''decimals'', JNum 18)]),
               (''rpcUrls'', JArr [JStr SHARDEUM_RPC]),
               (''blockExplorerUrls'', JArr [JStr ''https://explorer-testnet.shardeum.org'']),
               (''iconUrls'', JArr [JStr ''https://shardeum.org/favicon.ico''])]]\<rparr>"

text \<open>
  \<open>switchToShardeum\<close>, the same text in both service classes (\<open>Web3Service\<close> and
  \<open>ShardeumAPI\<close>). The argument is \<open>window.ethereum\<close>, \<open>None\<close> when no wallet is
  injected.
\<close>

definition switchToShardeum :: "provider option \<Rightarrow> (err + unit) \<times> request list" where
  "switchToShardeum ethereum =
     (case ethereum of
        None \<Rightarrow> (Inl MetaMaskNotInstalled, [])
      | Some req \<Rightarrow>
          (case req switch_request of
             Inr _ \<Rightarrow> (Inr (), [switch_request])
           | Inl switchError \<Rightarrow>
               if err_code switchError = JNum 4902 then
                 (case req add_request of
                    Inr _ \<Rightarrow> (Inr (), [switch_request, add_request])
                  | Inl addError \<Rightarrow>
                      (Inl (FailedToAddNetwork (err_message addError)),
                       [switch_request, add_request]))
               else
                 (Inl (FailedToSwitchNetwork (err_message switchError)), [switch_request])))"

section \<open>Provider event listeners\<close>

text \<open>
  \<open>window.ethereum.on\<close> and \<open>window.ethereum.removeAllListeners\<close> are the provider's
  event-emitter interface: \<open>on\<close> adds the handler at the end of the event's listener
  list, without looking for the handler in it, \<open>removeAllListeners\<close> empties the
  event's list, and an emitted event calls every listener of the list in order.
\<close>

type_synonym 'h emitter = "string \<Rightarrow> 'h list"

definition emitter_on :: "'h emitter \<Rightarrow> string \<Rightarrow> 'h \<Rightarrow> 'h emitter" where
  "emitter_on e ev h = e(ev := e ev @ [h])"

definition emitter_removeAllListeners :: "'h emitter \<Rightarrow> string \<Rightarrow> 'h emitter" where
  "emitter_removeAllListeners e ev = e(ev := [])"

definition emit :: "'h emitter \<Rightarrow> string \<Rightarrow> 'h list" where
  "emit e ev = e ev"

text \<open>The three methods of the service; \<open>None\<close> is an absent \<open>window.ethereum\<close>.\<close>

definition onAccountsChanged :: "'h \<Rightarrow> 'h emitter option \<Rightarrow> 'h emitter option" where
  "onAccountsChanged callback ethereum =
     (case ethereum of
        None \<Rightarrow> None
      | Some e \<Rightarrow> Some (emitter_on e ''accountsChanged'' callback))"

definition onChainChanged :: "'h \<Rightarrow> 'h emitter option \<Rightarrow> 'h emitter option" where
  "onChainChanged callback ethereum =
     (case ethereum of
        None \<Rightarrow> None
      | Some e \<Rightarrow> Some (emitter_on e ''chainChanged'' callback))"

definition removeAllListeners :: "'h emitter option \<Rightarrow> 'h emitter option" where
  "removeAllListeners ethereum =
     (case ethereum of
        None \<Rightarrow> None
      | Some e \<Rightarrow>
          Some (emitter_removeAllListeners
                  (emitter_removeAllListeners e ''accountsChanged'') ''chainChanged''))"

text \<open>How many times one emitted event calls the handler \<open>h\<close>.\<close>

definition invocations :: "'h emitter option \<Rightarrow> string \<Rightarrow> 'h \<Rightarrow> nat" where
  "invocations ethereum ev h =
     (case ethereum of None \<Rightarrow> 0 | Some e \<Rightarrow> count_list (emit e ev) h)"

definition listener_count :: "'h emitter option \<Rightarrow> string \<Rightarrow> nat" where
  "listener_count ethereum ev =
     (case ethereum of None \<Rightarrow> 0 | Some e \<Rightarrow> length (emit e ev))"

section \<open>The tip store (server)\<close>

text \<open>
  The in-memory state of the server. \<open>tipCount\<close> is a JavaScript number that starts at
  0 and only ever grows by \<open>+= 1\<close>, so it is a natural number here; the increment is
  rounded to a double as the language does (see \<open>round53\<close> below).
\<close>

record creator =
  c_id :: string
  c_name :: string
  c_address :: string
  c_description :: string
  c_avatar :: string
  totalTips :: string
  tipCount :: nat

record transaction =
  t_id :: string
  t_fromAddress :: string
  t_toAddress :: string
  t_amount :: jsval
  t_txHash :: jsval
  t_creatorId :: jsval
  t_timestamp :: string
  t_status :: string

record store =
  creators :: "creator list"
  transactions :: "transaction list"

text \<open>The five fields the handler reads from \<open>req.body\<close>; a missing field is \<open>JUndefined\<close>.\<close>

record tip_body =
  b_fromAddress :: jsval
  b_toAddress :: jsval
  b_amount :: jsval
  b_txHash :: jsval
  b_creatorId :: jsval

text \<open>
  The answers of \<open>POST /api/tips\<close>: \<open>res.status(201).json(transaction)\<close>,
  \<open>res.status(400).json({error})\<close>, and the 500 of the framework when the handler
  throws.
\<close>

datatype tips_response = Created transaction | BadRequest string | ServerError

fun http_status :: "tips_response \<Rightarrow> nat" where
  "http_status (Created _) = 201"
| "http_status (BadRequest _) = 400"
| "http_status ServerError = 500"

text \<open>
  Rounding a natural number to the nearest double (53 significant bits, ties to the even
  mantissa), before the overflow to \<open>Infinity\<close>.
\<close>

fun bits :: "nat \<Rightarrow> nat" where
  "bits n = (if n = 0 then 0 else Suc (bits (n div 2)))"

declare bits.simps [simp del]

definition round53 :: "nat \<Rightarrow> nat" where
  "round53 n =
     (if bits n \<le> 53 then n
      else
        let e = bits n - 53;
            q = n div 2 ^ e;
            r = n mod 2 ^ e;
            half = 2 ^ (e - 1)
        in (if half < r \<or> (r = half \<and> odd q) then q + 1 else q) * 2 ^ e)"

text \<open>
  \<open>creators.find(c => c.id === creatorId)\<close> followed by the assignments to the found
  object: the first creator that satisfies the test is changed in place.
\<close>

fun update_first :: "('a \<Rightarrow> bool) \<Rightarrow> ('a \<Rightarrow> 'a) \<Rightarrow> 'a list \<Rightarrow> 'a list" where
  "update_first P f [] = []"
| "update_first P f (x # xs) = (if P x then f x # xs else x # update_first P f xs)"

text \<open>
  \<open>app.post('/api/tips', ...)\<close>. The parameters are what the handler takes from its
  environment: \<open>add_tips t a\<close> is the string
  \<open>(parseFloat(t) + parseFloat(a)).toString()\<close> (floating-point arithmetic, left
  abstract), \<open>now_ms\<close> is \<open>Date.now().toString()\<close> and \<open>now_iso\<close> is
  \<open>new Date().toISOString()\<close>, and \<open>unicode_lower\<close> is the case mapping that
  \<open>toLowerCase\<close> applies outside ASCII. \<open>toLowerCase\<close> on a truthy value that is not
  a string throws, before anything is stored.
\<close>

definition new_transaction ::
  "(string \<Rightarrow> string) \<Rightarrow> string \<Rightarrow> string \<Rightarrow> string \<Rightarrow> string \<Rightarrow> tip_body \<Rightarrow> transaction" where
  "new_transaction unicode_lower now_ms now_iso from to body =
     \<lparr>t_id = now_ms,
      t_fromAddress = toLowerCase unicode_lower from,
      t_toAddress = toLowerCase unicode_lower to,
      t_amount = b_amount body,
      t_txHash = b_txHash body,
      t_creatorId = b_creatorId body,
      t_timestamp = now_iso,
      t_status = ''pending''\<rparr>"

definition update_stats :: "(string \<Rightarrow> jsval \<Rightarrow> string) \<Rightarrow> jsval \<Rightarrow> creator \<Rightarrow> creator" where
  "update_stats add_tips amt c =
     c\<lparr>totalTips := add_tips (totalTips c) amt, tipCount := round53 (tipCount c + 1)\<rparr>"

definition post_tips ::
  "(string \<Rightarrow> string) \<Rightarrow> (string \<Rightarrow> jsval \<Rightarrow> string) \<Rightarrow> string \<Rightarrow> string \<Rightarrow> store \<Rightarrow> tip_body
     \<Rightarrow> store \<times> tips_response" where
  "post_tips unicode_lower add_tips now_ms now_iso st body =
     (if \<not> truthy (b_fromAddress body) \<or> \<not> truthy (b_toAddress body)
         \<or> \<not> truthy (b_amount body) \<or> \<not> truthy (b_txHash body)
      then (st, BadRequest ''Missing required fields'')
      else
        (case (b_fromAddress body, b_toAddress body) of
           (JStr from, JStr to) \<Rightarrow>
             let tx = new_transaction unicode_lower now_ms now_iso from to body;
                 st1 = st\<lparr>transactions := transactions st @ [tx]\<rparr>;
                 st2 = (if truthy (b_creatorId body)
                        then st1\<lparr>creators :=
                               update_first (\<lambda>c. JStr (c_id c) = b_creatorId body)
                                 (update_stats add_tips (b_amount body)) (creators st1)\<rparr>
                        else st1)
             in (st2, Created tx)
         | _ \<Rightarrow> (st, ServerError)))"

text \<open>The two creators the server starts with, and no transaction.\<close>

definition initial_store :: store where
  "initial_store =
     \<lparr>creators =
        [\<lparr>c_id = ''1'', c_name = ''Tushar Pamnani'', c_address = ''<ADDRESS_HERE>'',
          c_description = ''Digital artist creating amazing NFT collections'',
          c_avatar = ''https://api.dicebear.com/7.x/avataaars/svg?seed=Alice'',
          totalTips = ''0'', tipCount = 0\<rparr>,
         \<lparr>c_id = ''2'', c_name = ''Bob Developer'',
          c_address = ''0x26d6a3805cbae5d5a510443a15129bec456cacff'',
          c_description = ''Full-stack developer building on Shardeum'',
          c_avatar = ''https://api.dicebear.com/7.x/avataaars/svg?seed=Bob'',
          totalTips = ''0'', tipCount = 0\<rparr>],
      transactions = []\<rparr>"

section \<open>Calls and their traces\<close>

text \<open>
  Every call the services make to a collaborator is an event; an operation returns its
  result together with the events it caused, in order.
\<close>

record envelope =
  e_jsonrpc :: string
  e_method :: string
  e_params :: "jsval list option"
  e_id :: nat

record http_request =
  h_url :: string
  h_verb :: string
  h_content_type :: string
  h_body :: envelope

record tx_request =
  tx_to :: string
  tx_value :: int
  tx_gasPrice :: jsval
  tx_gasLimit :: jsval

datatype event =
    ProviderRequest request
  | GetSigner
  | SignerGetAddress
  | SignerSendTransaction tx_request
  | HttpPost http_request
  | Web3GetBalance jsval
  | Web3EstimateGas jsval
  | Web3GetGasPrice
  | Web3GetChainId
  | Web3GetBlockNumber
  | StorePost tip_body
  | OnTipSent

type_synonym 'a outcome = "(err + 'a) \<times> event list"

text \<open>
  \<open>await\<close> in sequence: the second step runs only when the first returned, and an error
  of the first ends the operation with the events so far.
\<close>

definition thenE :: "'a outcome \<Rightarrow> ('a \<Rightarrow> 'b outcome) \<Rightarrow> 'b outcome" where
  "thenE m f =
     (case m of
        (Inl e, tr) \<Rightarrow> (Inl e, tr)
      | (Inr x, tr) \<Rightarrow> (case f x of (r, tr') \<Rightarrow> (r, tr @ tr')))"

text \<open>A call to a collaborator, recorded as one event; what it throws is passed on.\<close>

definition call :: "event \<Rightarrow> thrown + 'a \<Rightarrow> 'a outcome" where
  "call ev r = ((case r of Inl t \<Rightarrow> Inl (Rethrown t) | Inr v \<Rightarrow> Inr v), [ev])"

text \<open>A library function that touches no collaborator: no event.\<close>

definition pure_call :: "thrown + 'a \<Rightarrow> 'a outcome" where
  "pure_call r = ((case r of Inl t \<Rightarrow> Inl (Rethrown t) | Inr v \<Rightarrow> Inr v), [])"

definition is_submission :: "event \<Rightarrow> bool" where
  "is_submission ev =
     (case ev of
        SignerSendTransaction _ \<Rightarrow> True
      | ProviderRequest r \<Rightarrow> rq_method r = ''eth_sendTransaction''
      | _ \<Rightarrow> False)"

definition is_gas_estimation :: "event \<Rightarrow> bool" where
  "is_gas_estimation ev =
     (case ev of
        HttpPost h \<Rightarrow> e_method (h_body h) = ''eth_estimateGas'' \<or> e_method (h_body h) = ''eth_gasPrice''
      | Web3EstimateGas _ \<Rightarrow> True
      | Web3GetGasPrice \<Rightarrow> True
      | _ \<Rightarrow> False)"

section \<open>Chain RPC\<close>

text \<open>
  The transport is a parameter: \<open>fetch\<close> followed by \<open>response.json()\<close> in the client,
  \<open>axios.post\<close> followed by \<open>response.data\<close> in the server. \<open>Inl\<close> is a rejection of
  either step, \<open>Inr\<close> the parsed body. Each function of the source wraps one such call in
  \<open>try { ... return data.result } catch (error) { ...; throw error }\<close>.
\<close>

type_synonym transport = "http_request \<Rightarrow> thrown + jsval"

definition rpcUrl :: string where
  "rpcUrl = ''https://api-testnet.shardeum.org''"

definition rpc_request :: "string \<Rightarrow> string \<Rightarrow> jsval list option \<Rightarrow> http_request" where
  "rpc_request url m ps =
     \<lparr>h_url = url, h_verb = ''POST'', h_content_type = ''application/json'',
      h_body = \<lparr>e_jsonrpc = ''2.0'', e_method = m, e_params = ps, e_id = 1\<rparr>\<rparr>"

definition post_for_result :: "transport \<Rightarrow> http_request \<Rightarrow> jsval outcome" where
  "post_for_result transport rq =
     thenE (call (HttpPost rq) (transport rq)) (\<lambda>data. pure_call (get_prop data ''result''))"

definition getChainId :: "transport \<Rightarrow> jsval outcome" where
  "getChainId fetch = post_for_result fetch (rpc_request rpcUrl ''eth_chainId'' None)"

definition getGasPrice :: "transport \<Rightarrow> jsval outcome" where
  "getGasPrice fetch = post_for_result fetch (rpc_request rpcUrl ''eth_gasPrice'' None)"

definition getShardeumBalance :: "transport \<Rightarrow> string \<Rightarrow> jsval outcome" where
  "getShardeumBalance fetch address =
     post_for_result fetch
       (rpc_request rpcUrl ''eth_getBalance'' (Some [JStr address, JStr ''latest'']))"

definition getTransactionCount :: "transport \<Rightarrow> string \<Rightarrow> jsval outcome" where
  "getTransactionCount fetch address =
     post_for_result fetch
       (rpc_request rpcUrl ''eth_getTransactionCount'' (Some [JStr address, JStr ''latest'']))"

definition estimateGas :: "transport \<Rightarrow> jsval \<Rightarrow> jsval outcome" where
  "estimateGas fetch transactionObject =
     post_for_result fetch
       (rpc_request rpcUrl ''eth_estimateGas'' (Some [transactionObject, JStr ''latest'']))"

definition getTransactionReceipt :: "transport \<Rightarrow> string \<Rightarrow> jsval outcome" where
  "getTransactionReceipt fetch txHash =
     post_for_result fetch (rpc_request rpcUrl ''eth_getTransactionReceipt'' (Some [JStr txHash]))"

definition getTransactionByHash :: "transport \<Rightarrow> string \<Rightarrow> jsval outcome" where
  "getTransactionByHash fetch txHash =
     post_for_result fetch (rpc_request rpcUrl ''eth_getTransactionByHash'' (Some [JStr txHash]))"

definition getBlockNumber :: "transport \<Rightarrow> jsval outcome" where
  "getBlockNumber fetch = post_for_result fetch (rpc_request rpcUrl ''eth_blockNumber'' None)"

definition getNetworkAccount :: "transport \<Rightarrow> jsval outcome" where
  "getNetworkAccount fetch =
     post_for_result fetch (rpc_request rpcUrl ''shardeum_getNetworkAccount'' (Some []))"

text \<open>\<open>getNodeList(page = 1, limit = 100)\<close>: an \<open>undefined\<close> argument takes the default.\<close>

definition getNodeList :: "transport \<Rightarrow> jsval \<Rightarrow> jsval \<Rightarrow> jsval outcome" where
  "getNodeList fetch page limit =
     post_for_result fetch
       (rpc_request rpcUrl ''shardeum_getNodeList''
          (Some [JObj [(''page'', if page = JUndefined then JNum 1 else page),
                       (''limit'', if limit = JUndefined then JNum 100 else limit)]]))"

text \<open>
  The server's helper \<open>shardeumRPC(method, params = [])\<close>; \<open>None\<close> is a call without the
  second argument.
\<close>

definition shardeumRPC :: "transport \<Rightarrow> string \<Rightarrow> jsval list option \<Rightarrow> jsval outcome" where
  "shardeumRPC axios_post m params =
     post_for_result axios_post
       (rpc_request SHARDEUM_RPC m (Some (case params of None \<Rightarrow> [] | Some ps \<Rightarrow> ps)))"

section \<open>Sending a tip: \<open>ShardeumAPI\<close>\<close>

text \<open>
  The service imported by the tip dialog. Its collaborators: \<open>window.ethereum\<close>
  (\<open>None\<close> when absent), the signer that \<open>new BrowserProvider(window.ethereum).getSigner()\<close>
  yields, the transport of the RPC calls, and the library's \<open>ethers.isAddress\<close>.
  A signer answers \<open>getAddress()\<close> and \<open>sendTransaction(tx)\<close>, the latter with the
  \<open>hash\<close> of its response.
\<close>

record signer =
  sg_getAddress :: "thrown + string"
  sg_sendTransaction :: "tx_request \<Rightarrow> thrown + string"

record wallet_env =
  env_ethereum :: "provider option"
  env_getSigner :: "thrown + signer"
  env_fetch :: transport
  env_isAddress :: "string \<Rightarrow> bool"

text \<open>The fields \<open>provider\<close> and \<open>signer\<close> of the service object.\<close>

record api_state =
  has_provider :: bool
  api_signer :: "signer option"

definition chainId_request :: request where
  "chainId_request = \<lparr>rq_method = ''eth_chainId'', rq_params = None\<rparr>"

text \<open>
  \<open>verifyNetwork\<close>, the same text in both service classes: the request is made inside
  \<open>try\<close>, and anything thrown (also by an absent \<open>window.ethereum\<close>) gives \<open>false\<close>.
\<close>

definition verifyNetwork :: "provider option \<Rightarrow> bool \<times> event list" where
  "verifyNetwork ethereum =
     (case ethereum of
        None \<Rightarrow> (False, [])
      | Some req \<Rightarrow>
          (req chainId_request = Inr (JStr SHARDEUM_CHAIN_ID), [ProviderRequest chainId_request]))"

text \<open>The service object after the first two statements of \<open>sendTransaction\<close>.\<close>

definition ensure_signer :: "wallet_env \<Rightarrow> api_state \<Rightarrow> api_state" where
  "ensure_signer env st =
     (let p = (has_provider st \<or> env_ethereum env \<noteq> None)
      in \<lparr>has_provider = p,
          api_signer =
            (case api_signer st of
               Some sg \<Rightarrow> Some sg
             | None \<Rightarrow>
                 if p then (case env_getSigner env of Inl _ \<Rightarrow> None | Inr sg \<Rightarrow> Some sg)
                 else None)\<rparr>)"

text \<open>
  \<open>sendTransaction(to, amount, gasLimit = null)\<close>. \<open>gasLimit\<close> is an integer or
  \<open>None\<close> for \<open>null\<close>; \<open>!gasLimit\<close> holds of \<open>null\<close> and of 0.
\<close>

definition ShardeumAPI_sendTransaction ::
  "wallet_env \<Rightarrow> api_state \<Rightarrow> string \<Rightarrow> string \<Rightarrow> int option \<Rightarrow> string outcome" where
  "ShardeumAPI_sendTransaction env st to amt gasLimit =
     thenE
       (if api_signer st = None \<and> (has_provider st \<or> env_ethereum env \<noteq> None)
        then thenE (call GetSigner (env_getSigner env)) (\<lambda>sg. (Inr (Some sg), []))
        else (Inr (api_signer st), []))
       (\<lambda>sgo. case sgo of
          None \<Rightarrow> (Inl WalletNotConnected, [])
        | Some sg \<Rightarrow>
            thenE
              (case verifyNetwork (env_ethereum env) of
                 (isCorrectNetwork, tr) \<Rightarrow>
                   ((if isCorrectNetwork then Inr () else Inl SwitchBeforeTransactions), tr))
              (\<lambda>_. thenE (call SignerGetAddress (sg_getAddress sg))
              (\<lambda>fromAddress. thenE (pure_call (parseEther amt))
              (\<lambda>value. thenE (getGasPrice (env_fetch env))
              (\<lambda>gasPrice.
                 let transactionObject =
                       JObj [(''from'', JStr fromAddress), (''to'', JStr to),
                             (''value'', JStr (''0x'' @ toString16 value)),
                             (''gasPrice'', gasPrice)]
                 in thenE
                      (case gasLimit of
                         None \<Rightarrow> estimateGas (env_fetch env) transactionObject
                       | Some g \<Rightarrow>
                           if g = 0 then estimateGas (env_fetch env) transactionObject
                           else (Inr (JStr (''0x'' @ toString16 g)), []))
                      (\<lambda>finalGasLimit.
                         let tx = \<lparr>tx_to = to, tx_value = value, tx_gasPrice = gasPrice,
                                   tx_gasLimit = finalGasLimit\<rparr>
                         in call (SignerSendTransaction tx) (sg_sendTransaction sg tx)))))))"

definition ShardeumAPI_sendTip :: "wallet_env \<Rightarrow> api_state \<Rightarrow> string \<Rightarrow> string \<Rightarrow> string outcome" where
  "ShardeumAPI_sendTip env st toAddress amt = ShardeumAPI_sendTransaction env st toAddress amt None"

section \<open>Sending a tip: \<open>Web3Service\<close>\<close>

text \<open>
  The second service class. \<open>web3\<close> is its library handle, \<open>None\<close> when no provider was
  injected at construction; the library's functions are parameters of the model.
  \<open>parseFloat\<close> is the language's.
\<close>

record web3 =
  w3_getBalance :: "jsval \<Rightarrow> thrown + jsval"
  w3_estimateGas :: "jsval \<Rightarrow> thrown + jsval"
  w3_getGasPrice :: "thrown + jsval"
  w3_getChainId :: "thrown + int"
  w3_getBlockNumber :: "thrown + int"
  w3_toWei :: "string \<Rightarrow> thrown + jsval"
  w3_fromWei :: "jsval \<Rightarrow> thrown + string"
  w3_toHex :: "jsval \<Rightarrow> thrown + jsval"
  w3_isAddress :: "string \<Rightarrow> bool"


definition Web3Service_getBalance :: "web3 option \<Rightarrow> jsval \<Rightarrow> string outcome" where
  "Web3Service_getBalance w address =
     (case w of
        None \<Rightarrow> (Inl Web3NotInitialized, [])
      | Some lib \<Rightarrow>
          (case w3_getBalance lib address of
             Inl t \<Rightarrow> (Inl (FailedToGetBalance (err_message t)), [Web3GetBalance address])
           | Inr balanceWei \<Rightarrow>
               (case w3_fromWei lib balanceWei of
                  Inl t \<Rightarrow> (Inl (FailedToGetBalance (err_message t)), [Web3GetBalance address])
                | Inr b \<Rightarrow> (Inr b, [Web3GetBalance address]))))"

text \<open>The test \<open>/^\d*\.?\d+$/\<close>: digits, an optional point, and one digit at least.\<close>

definition amount_pattern :: "string \<Rightarrow> bool" where
  "amount_pattern s =
     (let rest = dropWhile is_digit s
      in if rest = [] then s \<noteq> []
         else hd rest = CHR ''.'' \<and> tl rest \<noteq> [] \<and> list_all is_digit (tl rest))"

definition accounts_request :: request where
  "accounts_request = \<lparr>rq_method = ''eth_accounts'', rq_params = None\<rparr>"

definition send_request :: "jsval \<Rightarrow> request" where
  "send_request transactionParams =
     \<lparr>rq_method = ''eth_sendTransaction'', rq_params = Some [transactionParams]\<rparr>"

definition Web3Service_sendTip ::
  "(string \<Rightarrow> jsnum) \<Rightarrow> web3 option \<Rightarrow> provider option \<Rightarrow> string \<Rightarrow> string \<Rightarrow> jsval outcome" where
  "Web3Service_sendTip parseFloat w ethereum toAddress amt =
     (case (w, ethereum) of
        (Some lib, Some req) \<Rightarrow>
          (case verifyNetwork ethereum of
             (isCorrectNetwork, tr) \<Rightarrow>
               if \<not> isCorrectNetwork then (Inl SwitchBeforeTips, tr)
               else
                 (case
                    thenE (call (ProviderRequest accounts_request) (req accounts_request))
                    (\<lambda>accounts. thenE (pure_call (get_prop accounts ''length''))
                    (\<lambda>len.
                       if len = JNum 0 then (Inl NoConnectedAccounts, [])
                       else
                         let fromAddress = first_elem accounts;
                             numAmount = parseFloat amt
                         in if \<not> amount_pattern amt then (Inl InvalidTipAmount, [])
                            else
                              thenE (pure_call (w3_toWei lib amt))
                              (\<lambda>amountWei. thenE (pure_call (w3_fromWei lib amountWei))
                              (\<lambda>backToEther.
                                 if js_strict_neq (parseFloat backToEther) numAmount
                                 then (Inl AmountConversionError, [])
                                 else
                                   thenE (Web3Service_getBalance w fromAddress)
                                   (\<lambda>balance.
                                      if js_lt (parseFloat balance) numAmount
                                      then (Inl (InsufficientBalance balance amt), [])
                                      else
                                        let shape = JObj [(''from'', fromAddress),
                                                          (''to'', JStr toAddress),
                                                          (''value'', amountWei)]
                                        in thenE (call (Web3EstimateGas shape) (w3_estimateGas lib shape))
                                           (\<lambda>gasEstimate. thenE (call Web3GetGasPrice (w3_getGasPrice lib))
                                           (\<lambda>gasPrice. thenE (pure_call (w3_toHex lib gasEstimate))
                                           (\<lambda>gasHex. thenE (pure_call (w3_toHex lib gasPrice))
                                           (\<lambda>gasPriceHex.
                                              let transactionParams =
                                                    JObj [(''from'', fromAddress),
                                                          (''to'', JStr toAddress),
                                                          (''value'', amountWei),
                                                          (''gas'', gasHex),
                                                          (''gasPrice'', gasPriceHex)]
                                              in call (ProviderRequest (send_request transactionParams))
                                                      (req (send_request transactionParams)))))))))))
                  of
                    (Inl e, tr') \<Rightarrow> (Inl (FailedToSendTip e), tr @ tr')
                  | (Inr h, tr') \<Rightarrow> (Inr h, tr @ tr')))
      | _ \<Rightarrow> (Inl Web3NotInitialized, []))"

section \<open>The tip dialog\<close>

text \<open>
  \<open>apiService.recordTip\<close>: \<open>api.post('/tips', tipData)\<close> against the server above. The
  link to the server either delivers the request and the response, or loses the request,
  or loses the response; the response interceptor turns an error status into
  \<open>API Error: ...\<close> (the \<open>error\<close> field of the body, else the status text) and a
  missing response into \<open>Network Error: ...\<close>.
\<close>

datatype link = Delivered | RequestLost | ResponseLost

record backend =
  srv_link :: link
  srv_lower :: "string \<Rightarrow> string"
  srv_add_tips :: "string \<Rightarrow> jsval \<Rightarrow> string"
  srv_now_ms :: string
  srv_now_iso :: string
  srv_store :: store

definition recordTip :: "backend \<Rightarrow> tip_body \<Rightarrow> (err + transaction) \<times> backend" where
  "recordTip b tipData =
     (case srv_link b of
        RequestLost \<Rightarrow> (Inl NetworkError, b)
      | ResponseLost \<Rightarrow>
          (Inl NetworkError,
           b\<lparr>srv_store :=
               fst (post_tips (srv_lower b) (srv_add_tips b) (srv_now_ms b) (srv_now_iso b)
                      (srv_store b) tipData)\<rparr>)
      | Delivered \<Rightarrow>
          (case post_tips (srv_lower b) (srv_add_tips b) (srv_now_ms b) (srv_now_iso b)
                  (srv_store b) tipData of
             (st', Created tx) \<Rightarrow> (Inr tx, b\<lparr>srv_store := st'\<rparr>)
           | (st', BadRequest m) \<Rightarrow> (Inl (ApiError m), b\<lparr>srv_store := st'\<rparr>)
           | (st', ServerError) \<Rightarrow> (Inl (ApiError ''Internal Server Error''), b\<lparr>srv_store := st'\<rparr>)))"

text \<open>What \<open>setError\<close> shows: a message of \<open>validateForm\<close>, or the message of a caught error.\<close>

datatype ui_error = EnterValidAmount | InsufficientBalanceUI | InvalidCreatorAddress | Caught err

record walletState =
  ws_isConnected :: bool
  ws_address :: "string option"
  ws_balance :: string
  ws_chainId :: "string option"

record modal =
  m_error :: "ui_error option"
  m_txHash :: "string option"
  m_isLoading :: bool

text \<open>
  \<open>validateForm\<close>: \<open>None\<close> is the result \<open>true\<close>, \<open>Some e\<close> the result \<open>false\<close> after
  \<open>setError(e)\<close>.
\<close>

definition validateForm ::
  "(string \<Rightarrow> jsnum) \<Rightarrow> (string \<Rightarrow> bool) \<Rightarrow> string \<Rightarrow> walletState \<Rightarrow> creator \<Rightarrow> ui_error option" where
  "validateForm parseFloat isValidAddress amt ws cr =
     (if amt = [] \<or> js_le (parseFloat amt) (Fin 0) then Some EnterValidAmount
      else if js_gt (parseFloat amt) (parseFloat (ws_balance ws)) then Some InsufficientBalanceUI
      else if \<not> isValidAddress (c_address cr) then Some InvalidCreatorAddress
      else None)"

definition tip_data :: "walletState \<Rightarrow> creator \<Rightarrow> string \<Rightarrow> string \<Rightarrow> tip_body" where
  "tip_data ws cr amt hash =
     \<lparr>b_fromAddress = (case ws_address ws of None \<Rightarrow> JNull | Some a \<Rightarrow> JStr a),
      b_toAddress = JStr (c_address cr),
      b_amount = JStr amt,
      b_txHash = JStr hash,
      b_creatorId = JStr (c_id cr)\<rparr>"

text \<open>
  \<open>handleSendTip\<close> of the dialog, with the service it imports (\<open>ShardeumAPI\<close>). The
  result is the dialog's state, the service object, the server, and the events in order.
\<close>

definition handleSendTip ::
  "(string \<Rightarrow> jsnum) \<Rightarrow> wallet_env \<Rightarrow> api_state \<Rightarrow> backend \<Rightarrow> walletState \<Rightarrow> creator \<Rightarrow> string
     \<Rightarrow> modal \<Rightarrow> modal \<times> api_state \<times> backend \<times> event list" where
  "handleSendTip parseFloat env st b ws cr amt m =
     (case validateForm parseFloat (ShardeumAPI_isValidAddress (env_isAddress env)) amt ws cr of
        Some e \<Rightarrow> (m\<lparr>m_error := Some e\<rparr>, st, b, [])
      | None \<Rightarrow>
          (case ShardeumAPI_sendTip env st (c_address cr) amt of
             (Inl e, tr) \<Rightarrow>
               (m\<lparr>m_error := Some (Caught e), m_isLoading := False\<rparr>, ensure_signer env st, b, tr)
           | (Inr hash, tr) \<Rightarrow>
               (case recordTip b (tip_data ws cr amt hash) of
                  (Inl e, b') \<Rightarrow>
                    (m\<lparr>m_error := Some (Caught e), m_txHash := Some hash, m_isLoading := False\<rparr>,
                     ensure_signer env st, b', tr @ [StorePost (tip_data ws cr amt hash)])
                | (Inr _, b') \<Rightarrow>
                    (m\<lparr>m_error := None, m_txHash := Some hash, m_isLoading := False\<rparr>,
                     ensure_signer env st, b',
                     tr @ [StorePost (tip_data ws cr amt hash), OnTipSent]))))"

text \<open>The events of a run of \<open>handleSendTip\<close>, and the server after it.\<close>

definition events_of :: "modal \<times> api_state \<times> backend \<times> event list \<Rightarrow> event list" where
  "events_of r = snd (snd (snd r))"

definition backend_of :: "modal \<times> api_state \<times> backend \<times> event list \<Rightarrow> backend" where
  "backend_of r = fst (snd (snd r))"

section \<open>Numeric chain values\<close>

text \<open>
  The number of an integer: the nearest double (\<open>round53\<close> of its absolute value,
  with its sign), an infinity when the rounded value reaches \<open>2 ^ 1024\<close>.
\<close>

definition to_number :: "int \<Rightarrow> jsnum" where
  "to_number i =
     (let m = round53 (nat \<bar>i\<bar>)
      in if 2 ^ 1024 \<le> m then (if i < 0 then NegInf else PosInf)
         else Fin (of_int (if i < 0 then - int m else int m)))"

text \<open>
  The white space that \<open>parseInt\<close> skips, by the bytes of its UTF-8 encoding: the
  characters U+0009 to U+000D and U+0020, then U+00A0, U+1680, U+2000 to U+200A,
  U+2028, U+2029, U+202F, U+205F, U+3000 and U+FEFF. \<open>space_length s\<close> is the number of
  bytes of the white-space character that \<open>s\<close> starts with, 0 when it starts with none.
\<close>

definition space_length :: "string \<Rightarrow> nat" where
  "space_length s =
     (let b = map of_char (take 3 s) :: nat list
      in if take 1 b \<in> {[9], [10], [11], [12], [13], [32]} then 1
         else if take 2 b = [194, 160] then 2
         else if b = [225, 154, 128] then 3
         else if take 2 b = [226, 128] \<and> length b = 3
                 \<and> ((128 \<le> b ! 2 \<and> b ! 2 \<le> 138) \<or> b ! 2 \<in> {168, 169, 175}) then 3
         else if b = [226, 129, 159] then 3
         else if b = [227, 128, 128] then 3
         else if b = [239, 187, 191] then 3
         else 0)"

function skip_space :: "string \<Rightarrow> string" where
  "skip_space s = (if space_length s = 0 then s else skip_space (drop (space_length s) s))"
  by pat_completeness auto
termination
proof (relation "measure length")
  show "wf (measure length)" by simp
next
  fix s :: string
  assume "space_length s \<noteq> 0"
  moreover have "space_length [] = 0" by (simp add: space_length_def)
  ultimately have "s \<noteq> []" by auto
  with \<open>space_length s \<noteq> 0\<close> show "(drop (space_length s) s, s) \<in> measure length"
    by simp
qed

declare skip_space.simps [simp del]

text \<open>
  \<open>parseInt(s, 16)\<close>: leading white space is skipped, then a sign, then the prefix
  \<open>0x\<close> or \<open>0X\<close>; the longest run of hexadecimal digits that follows is the integer,
  \<open>NaN\<close> when the run is empty.
\<close>

definition parseInt16 :: "string \<Rightarrow> jsnum" where
  "parseInt16 s =
     (let s1 = skip_space s;
          neg = (s1 \<noteq> [] \<and> hd s1 = CHR ''-'');
          s2 = (if s1 \<noteq> [] \<and> (hd s1 = CHR ''-'' \<or> hd s1 = CHR ''+'') then tl s1 else s1);
          s3 = (if take 2 s2 = ''0x'' \<or> take 2 s2 = ''0X'' then drop 2 s2 else s2);
          z = takeWhile is_hex_digit s3
      in if z = [] then NaN
         else to_number (if neg then - int (radix_value 16 z) else int (radix_value 16 z)))"

text \<open>
  \<open>parseInt(v, 16)\<close> of a value: a string is read as it is, any other value through
  the language's conversion to a string, a parameter here.
\<close>

definition parseInt_value :: "(jsval \<Rightarrow> string) \<Rightarrow> jsval \<Rightarrow> jsnum" where
  "parseInt_value toStr v = parseInt16 (case v of JStr s \<Rightarrow> s | _ \<Rightarrow> toStr v)"

text \<open>
  \<open>GET /api/network\<close> and \<open>GET /api/nonce/:address\<close>: \<open>Inl\<close> is the answer 500, \<open>Inr\<close>
  the JSON answer.
\<close>

record network_info =
  ni_chainId :: jsval
  ni_blockNumber :: jsnum
  ni_gasPrice :: jsnum

definition get_network :: "(jsval \<Rightarrow> string) \<Rightarrow> transport \<Rightarrow> (string + network_info) \<times> event list" where
  "get_network toStr axios_post =
     (case
        thenE (shardeumRPC axios_post ''eth_chainId'' None)
        (\<lambda>chainId. thenE (shardeumRPC axios_post ''eth_blockNumber'' None)
        (\<lambda>blockNumber. thenE (shardeumRPC axios_post ''eth_gasPrice'' None)
        (\<lambda>gasPrice.
           (Inr \<lparr>ni_chainId = chainId,
                 ni_blockNumber = parseInt_value toStr blockNumber,
                 ni_gasPrice = parseInt_value toStr gasPrice\<rparr>, []))))
      of
        (Inl _, tr) \<Rightarrow> (Inl ''Failed to fetch network info'', tr)
      | (Inr info, tr) \<Rightarrow> (Inr info, tr))"

definition get_nonce ::
  "(jsval \<Rightarrow> string) \<Rightarrow> transport \<Rightarrow> string \<Rightarrow> (string + string \<times> jsnum) \<times> event list" where
  "get_nonce toStr axios_post address =
     (case shardeumRPC axios_post ''eth_getTransactionCount'' (Some [JStr address, JStr ''latest'']) of
        (Inl _, tr) \<Rightarrow> (Inl ''Failed to fetch nonce'', tr)
      | (Inr nonce, tr) \<Rightarrow> (Inr (address, parseInt_value toStr nonce), tr))"

text \<open>
  \<open>GET /api/balance/:address\<close>: the balance is handed as received to the library's
  \<open>fromWei\<close> (a parameter) and returned unparsed as \<open>balanceWei\<close>. The answer is the
  triple of \<open>address\<close>, \<open>balance\<close> and \<open>balanceWei\<close>.
\<close>

definition get_balance ::
  "(jsval \<Rightarrow> thrown + jsval) \<Rightarrow> transport \<Rightarrow> string
     \<Rightarrow> (string + string \<times> jsval \<times> jsval) \<times> event list" where
  "get_balance fromWei axios_post address =
     (case shardeumRPC axios_post ''eth_getBalance'' (Some [JStr address, JStr ''latest'']) of
        (Inl _, tr) \<Rightarrow> (Inl ''Failed to fetch balance'', tr)
      | (Inr balance, tr) \<Rightarrow>
          (case fromWei balance of
             Inl _ \<Rightarrow> (Inl ''Failed to fetch balance'', tr)
           | Inr balanceInSHM \<Rightarrow> (Inr (address, balanceInSHM, balance), tr)))"

text \<open>
  \<open>Web3Service.getNetworkInfo\<close>: the library answers with \<open>bigint\<close>s, which
  \<open>Number(...)\<close> turns into numbers. \<open>Number\<close> of a value that is neither a \<open>bigint\<close>
  nor a number is the language's conversion, a parameter here.
\<close>

definition Number_value :: "(jsval \<Rightarrow> jsnum) \<Rightarrow> jsval \<Rightarrow> jsnum" where
  "Number_value toNum v = (case v of JBig i \<Rightarrow> to_number i | JNum r \<Rightarrow> Fin r | _ \<Rightarrow> toNum v)"

definition Web3Service_getNetworkInfo ::
  "(jsval \<Rightarrow> jsnum) \<Rightarrow> web3 option \<Rightarrow> (err + network_info) \<times> event list" where
  "Web3Service_getNetworkInfo toNum w =
     (case w of
        None \<Rightarrow> (Inl Web3NotInitialized, [])
      | Some lib \<Rightarrow>
          (case
             thenE (call Web3GetChainId (w3_getChainId lib))
             (\<lambda>chainId. thenE (call Web3GetBlockNumber (w3_getBlockNumber lib))
             (\<lambda>blockNumber. thenE (call Web3GetGasPrice (w3_getGasPrice lib))
             (\<lambda>gasPrice.
                (Inr \<lparr>ni_chainId = JStr (''0x'' @ toString16 chainId),
                      ni_blockNumber = Number_value toNum (JBig blockNumber),
                      ni_gasPrice = Number_value toNum gasPrice\<rparr>, []))))
           of
             (Inl (Rethrown t), tr) \<Rightarrow> (Inl (FailedToGetNetworkInfo (err_message t)), tr)
           | (Inl e, tr) \<Rightarrow> (Inl e, tr)
           | (Inr info, tr) \<Rightarrow> (Inr info, tr)))"

text \<open>The integer a \<open>0x\<close>-prefixed hexadecimal string denotes, \<open>None\<close> for any other string.\<close>

definition hex_quantity :: "string \<Rightarrow> nat option" where
  "hex_quantity s =
     (if take 2 s = ''0x'' \<and> drop 2 s \<noteq> [] \<and> list_all is_hex_digit (drop 2 s)
      then Some (radix_value 16 (drop 2 s)) else None)"

section \<open>Concrete collaborators\<close>

text \<open>
  A provider that does not know the chain (error 4902 on the switch, every other request
  granted), and one whose user rejects every request (error 4001).
\<close>

definition provider_unknown_chain :: provider where
  "provider_unknown_chain r =
     (if r = switch_request
      then Inl \<lparr>err_code = JNum 4902, err_message = ''Unrecognized chain ID''\<rparr>
      else Inr JNull)"

definition provider_rejecting :: provider where
  "provider_rejecting r = Inl \<lparr>err_code = JNum 4001, err_message = ''User rejected the request''\<rparr>"

text \<open>
  A wallet on the expected chain with one account, a signer that accepts every
  transaction, an RPC endpoint that answers every call with a result, and a library
  check that accepts the canonical format; the same wallet on chain \<open>0x1\<close>.
\<close>

definition sample_account :: string where
  "sample_account = ''0x71c7656ec7ab88b098defb751b7401b5f6d8976f''"

definition sample_hash :: string where
  "sample_hash = ''0x9fc76417374aa880d4449a1f7f31ec597f00b1f6f3dd2d66f4c9c6c445836d8b''"

definition good_provider :: provider where
  "good_provider r =
     (if rq_method r = ''eth_chainId'' then Inr (JStr ''0x1f93'')
      else if rq_method r = ''eth_accounts'' then Inr (JArr [JStr sample_account])
      else if rq_method r = ''eth_sendTransaction'' then Inr (JStr sample_hash)
      else Inr JNull)"

definition mainnet_provider :: provider where
  "mainnet_provider r =
     (if rq_method r = ''eth_chainId'' then Inr (JStr ''0x1'') else good_provider r)"

definition good_signer :: signer where
  "good_signer = \<lparr>sg_getAddress = Inr sample_account, sg_sendTransaction = (\<lambda>tx. Inr sample_hash)\<rparr>"

definition good_transport :: transport where
  "good_transport rq =
     Inr (JObj [(''jsonrpc'', JStr ''2.0''), (''id'', JNum 1),
                (''result'', JStr (if e_method (h_body rq) = ''eth_gasPrice''
                                   then ''0x3b9aca00'' else ''0x5208''))])"

definition good_env :: wallet_env where
  "good_env =
     \<lparr>env_ethereum = Some good_provider, env_getSigner = Inr good_signer,
      env_fetch = good_transport, env_isAddress = canonical_address\<rparr>"

definition mainnet_env :: wallet_env where
  "mainnet_env =
     \<lparr>env_ethereum = Some mainnet_provider, env_getSigner = Inr good_signer,
      env_fetch = good_transport, env_isAddress = canonical_address\<rparr>"

definition fresh_api :: api_state where
  "fresh_api = \<lparr>has_provider = False, api_signer = None\<rparr>"

text \<open>An endpoint that is down, and one that answers with a JSON-RPC error envelope.\<close>

definition failing_transport :: transport where
  "failing_transport rq = Inl \<lparr>err_code = JUndefined, err_message = ''Failed to fetch''\<rparr>"

definition error_envelope_transport :: transport where
  "error_envelope_transport rq =
     Inr (JObj [(''jsonrpc'', JStr ''2.0''), (''id'', JNum 1),
                (''error'', JObj [(''code'', JNum (- 32601)),
                                  (''message'', JStr ''Method not found'')])])"

text \<open>An endpoint whose every result is the quantity \<open>2 ^ 53 + 1\<close>.\<close>

definition large_quantity_transport :: transport where
  "large_quantity_transport rq = Inr (JObj [(''result'', JStr ''0x20000000000001'')])"

text \<open>
  \<open>parseFloat\<close> on the strings of the examples (each of them a double), \<open>NaN\<close> on
  every other string.
\<close>

definition sample_parseFloat :: "string \<Rightarrow> jsnum" where
  "sample_parseFloat s =
     (if s = ''0'' \<or> s = ''0.0'' then Fin 0
      else if s = ''0.25'' then Fin (1 / 4)
      else if s = ''0.5'' then Fin (1 / 2)
      else if s = ''1'' \<or> s = ''1.0'' then Fin 1
      else if s = ''5'' then Fin 5
      else NaN)"

definition sample_wallet :: walletState where
  "sample_wallet =
     \<lparr>ws_isConnected = True, ws_address = Some sample_account, ws_balance = ''1'',
      ws_chainId = Some ''0x1f93''\<rparr>"

definition bob :: creator where
  "bob = creators initial_store ! 1"

definition sample_backend :: backend where
  "sample_backend =
     \<lparr>srv_link = Delivered, srv_lower = (\<lambda>s. s), srv_add_tips = (\<lambda>t a. ''0.5''),
      srv_now_ms = ''1730631600000'', srv_now_iso = ''2024-11-03T11:00:00.000Z'',
      srv_store = initial_store\<rparr>"

definition idle_modal :: modal where
  "idle_modal = \<lparr>m_error = None, m_txHash = None, m_isLoading = False\<rparr>"

definition sample_tip :: "jsval \<Rightarrow> tip_body" where
  "sample_tip cid =
     \<lparr>b_fromAddress = JStr sample_account,
      b_toAddress = JStr ''0x26d6a3805cbae5d5a510443a15129bec456cacff'',
      b_amount = JStr ''0.5'',
      b_txHash = JStr sample_hash,
      b_creatorId = cid\<rparr>"

text \<open>
  A library handle for \<open>Web3Service\<close>: an account with one token, and conversions that
  follow the conversion library above.
\<close>

definition sample_web3 :: web3 where
  "sample_web3 =
     \<lparr>w3_getBalance = (\<lambda>a. Inr (JBig (10 ^ 18))),
      w3_estimateGas = (\<lambda>shape. Inr (JBig 21000)),
      w3_getGasPrice = Inr (JBig 1000000000),
      w3_getChainId = Inr 8083,
      w3_getBlockNumber = Inr 9007199254740993,
      w3_toWei = (\<lambda>s. case parseEther s of Inl t \<Rightarrow> Inl t | Inr v \<Rightarrow> Inr (JBig v)),
      w3_fromWei = (\<lambda>v. case v of JBig i \<Rightarrow> Inr (formatEther i) | _ \<Rightarrow> Inl invalid_value),
      w3_toHex = (\<lambda>v. case v of JBig i \<Rightarrow> Inr (JStr (''0x'' @ toString16 i))
                                | _ \<Rightarrow> Inl invalid_value),
      w3_isAddress = canonical_address\<rparr>"

section \<open>Network switch\<close>

text \<open>
  C6. When the switch request fails with the provider's code 4902, exactly one add-chain
  request follows the single switch request and the switch is not attempted again; a
  switch failure with any other code makes the operation fail after that one request.
\<close>

theorem switchToShardeum_unrecognized_chain:
  "req switch_request = Inl e \<Longrightarrow>
     (err_code e = JNum 4902 \<longrightarrow>
        snd (switchToShardeum (Some req)) = [switch_request, add_request]
        \<and> count_list (snd (switchToShardeum (Some req))) add_request = 1
        \<and> count_list (snd (switchToShardeum (Some req))) switch_request = 1)
     \<and> (err_code e \<noteq> JNum 4902 \<longrightarrow>
        switchToShardeum (Some req) =
          (Inl (FailedToSwitchNetwork (err_message e)), [switch_request]))"
  by (auto simp: switchToShardeum_def switch_request_def add_request_def split: sum.splits)

theorem switchToShardeum_unrecognized_chain_witness:
  "switchToShardeum (Some provider_unknown_chain) = (Inr (), [switch_request, add_request])
   \<and> count_list (snd (switchToShardeum (Some provider_unknown_chain))) add_request = 1
   \<and> count_list (snd (switchToShardeum (Some provider_unknown_chain))) switch_request = 1
   \<and> switchToShardeum (Some provider_rejecting) =
       (Inl (FailedToSwitchNetwork ''User rejected the request''), [switch_request])"
proof -
  have a: "provider_unknown_chain switch_request =
             Inl \<lparr>err_code = JNum 4902, err_message = ''Unrecognized chain ID''\<rparr>"
    by (simp add: provider_unknown_chain_def)
  have b: "provider_rejecting switch_request =
             Inl \<lparr>err_code = JNum 4001, err_message = ''User rejected the request''\<rparr>"
    by (simp add: provider_rejecting_def)
  have c: "provider_unknown_chain add_request = Inr JNull"
    by (simp add: provider_unknown_chain_def add_request_def switch_request_def)
  have d: "fst (switchToShardeum (Some provider_unknown_chain)) = Inr ()"
    by (simp add: switchToShardeum_def a c)
  show ?thesis
    using switchToShardeum_unrecognized_chain [of provider_unknown_chain, OF a]
      switchToShardeum_unrecognized_chain [of provider_rejecting, OF b] d
    by (simp add: prod_eq_iff add_request_def switch_request_def)
qed

section \<open>Event listeners\<close>

text \<open>
  C8, as the claim states it, fails: a second subscription does not replace the first.
  After two calls of \<open>onAccountsChanged\<close> on a provider without listeners the event has
  two listeners, and a handler subscribed twice is called twice by one event.
\<close>

theorem resubscribe_stacks_listeners:
  "listener_count
     (onAccountsChanged (2::nat) (onAccountsChanged 1 (Some (\<lambda>_. [])))) ''accountsChanged'' = 2
   \<and> invocations
     (onAccountsChanged (1::nat) (onAccountsChanged 1 (Some (\<lambda>_. [])))) ''accountsChanged'' 1 = 2"
  by (simp add: listener_count_def invocations_def onAccountsChanged_def emitter_on_def emit_def)

text \<open>
  C8, amended. A subscription adds one listener to the listeners of its event kind;
  \<open>removeAllListeners\<close> leaves no listener of either kind; a subscription made after
  \<open>removeAllListeners\<close> is the only listener of its kind, and one event calls its
  handler once.
\<close>

theorem listeners_added_and_cleared:
  "listener_count (removeAllListeners w) ''accountsChanged'' = 0
   \<and> listener_count (removeAllListeners w) ''chainChanged'' = 0
   \<and> listener_count (onAccountsChanged h (Some e)) ''accountsChanged''
       = Suc (listener_count (Some e) ''accountsChanged'')
   \<and> listener_count (onChainChanged h (Some e)) ''chainChanged''
       = Suc (listener_count (Some e) ''chainChanged'')
   \<and> listener_count (onAccountsChanged h (removeAllListeners (Some e))) ''accountsChanged'' = 1
   \<and> invocations (onAccountsChanged h (removeAllListeners (Some e))) ''accountsChanged'' h = 1
   \<and> listener_count (onChainChanged h (removeAllListeners (Some e))) ''chainChanged'' = 1
   \<and> invocations (onChainChanged h (removeAllListeners (Some e))) ''chainChanged'' h = 1"
  by (cases w)
     (simp_all add: listener_count_def invocations_def onAccountsChanged_def
        onChainChanged_def removeAllListeners_def emitter_on_def
        emitter_removeAllListeners_def emit_def)

section \<open>The tip store\<close>

lemma update_first_none: "\<forall>x\<in>set xs. \<not> P x \<Longrightarrow> update_first P f xs = xs"
  by (induction xs) auto

lemma update_first_split:
  "\<forall>y\<in>set ys. \<not> P y \<Longrightarrow> P c \<Longrightarrow> update_first P f (ys @ c # zs) = ys @ f c # zs"
  by (induction ys) auto

text \<open>
  C10. A tip whose required fields are present is appended and answered with 201. When its
  \<open>creatorId\<close> is absent, falsy or the id of no creator, the list of creators is
  unchanged; when it is the id of a creator, the first creator with that id gets the new
  \<open>totalTips\<close> and \<open>tipCount\<close>, and nothing else of the list changes.
\<close>

theorem post_tips_frame:
  assumes req: "b_fromAddress body = JStr f" "b_toAddress body = JStr t" "f \<noteq> []" "t \<noteq> []"
      "truthy (b_amount body)" "truthy (b_txHash body)"
  shows "((\<not> truthy (b_creatorId body)
           \<or> (\<forall>c\<in>set (creators st). JStr (c_id c) \<noteq> b_creatorId body)) \<longrightarrow>
          post_tips unicode_lower add_tips now_ms now_iso st body =
            (st\<lparr>transactions := transactions st @ [new_transaction unicode_lower now_ms now_iso f t body]\<rparr>,
             Created (new_transaction unicode_lower now_ms now_iso f t body)))
       \<and> (truthy (b_creatorId body) \<and> creators st = ys @ c # zs
           \<and> (\<forall>y\<in>set ys. JStr (c_id y) \<noteq> b_creatorId body)
           \<and> JStr (c_id c) = b_creatorId body \<longrightarrow>
          post_tips unicode_lower add_tips now_ms now_iso st body =
            (st\<lparr>transactions := transactions st @ [new_transaction unicode_lower now_ms now_iso f t body],
                creators := ys @ c\<lparr>totalTips := add_tips (totalTips c) (b_amount body),
                                    tipCount := round53 (tipCount c + 1)\<rparr> # zs\<rparr>,
             Created (new_transaction unicode_lower now_ms now_iso f t body)))
       \<and> http_status (snd (post_tips unicode_lower add_tips now_ms now_iso st body)) = 201"
  using req
  by (auto simp: post_tips_def Let_def update_first_none update_first_split update_stats_def)

lemma round53_1: "round53 (Suc 0) = 1"
  by (simp add: round53_def bits.simps)

theorem post_tips_frame_witness:
  "creators (fst (post_tips (\<lambda>s. s) (\<lambda>t a. ''0.5'') ''1730631600000'' ''2024-11-03T11:00:00.000Z''
                    initial_store (sample_tip (JStr ''99'')))) = creators initial_store
   \<and> creators (fst (post_tips (\<lambda>s. s) (\<lambda>t a. ''0.5'') ''1730631600000'' ''2024-11-03T11:00:00.000Z''
                    initial_store (sample_tip JUndefined))) = creators initial_store
   \<and> http_status (snd (post_tips (\<lambda>s. s) (\<lambda>t a. ''0.5'') ''1730631600000'' ''2024-11-03T11:00:00.000Z''
                    initial_store (sample_tip (JStr ''99'')))) = 201
   \<and> map tipCount (creators (fst (post_tips (\<lambda>s. s) (\<lambda>t a. ''0.5'') ''1730631600000''
                    ''2024-11-03T11:00:00.000Z'' initial_store (sample_tip (JStr ''2''))))) = [0, 1]
   \<and> map totalTips (creators (fst (post_tips (\<lambda>s. s) (\<lambda>t a. ''0.5'') ''1730631600000''
                    ''2024-11-03T11:00:00.000Z'' initial_store (sample_tip (JStr ''2''))))) = [''0'', ''0.5'']
   \<and> length (transactions (fst (post_tips (\<lambda>s. s) (\<lambda>t a. ''0.5'') ''1730631600000''
                    ''2024-11-03T11:00:00.000Z'' initial_store (sample_tip (JStr ''2''))))) = 1"
  using
    post_tips_frame [where body = "sample_tip (JStr ''99'')" and f = sample_account
      and t = "''0x26d6a3805cbae5d5a510443a15129bec456cacff''" and st = initial_store
      and unicode_lower = "\<lambda>s. s" and add_tips = "\<lambda>t a. ''0.5''" and now_ms = "''1730631600000''"
      and now_iso = "''2024-11-03T11:00:00.000Z''"]
    post_tips_frame [where body = "sample_tip JUndefined" and f = sample_account
      and t = "''0x26d6a3805cbae5d5a510443a15129bec456cacff''" and st = initial_store
      and unicode_lower = "\<lambda>s. s" and add_tips = "\<lambda>t a. ''0.5''" and now_ms = "''1730631600000''"
      and now_iso = "''2024-11-03T11:00:00.000Z''"]
    post_tips_frame [where body = "sample_tip (JStr ''2'')" and f = sample_account
      and t = "''0x26d6a3805cbae5d5a510443a15129bec456cacff''" and st = initial_store
      and ys = "[hd (creators initial_store)]" and c = "creators initial_store ! 1" and zs = "[]"
      and unicode_lower = "\<lambda>s. s" and add_tips = "\<lambda>t a. ''0.5''" and now_ms = "''1730631600000''"
      and now_iso = "''2024-11-03T11:00:00.000Z''"]
  by (simp add: sample_tip_def sample_account_def sample_hash_def initial_store_def round53_1)

section \<open>Chain RPC calls\<close>

lemma thenE_Inl [simp]: "thenE (Inl e, tr) f = (Inl e, tr)"
  by (simp add: thenE_def)

lemma thenE_Inr [simp]: "thenE (Inr x, tr) f = (fst (f x), tr @ snd (f x))"
  by (simp add: thenE_def split: prod.splits)

lemma post_for_result_trace: "snd (post_for_result transport rq) = [HttpPost rq]"
  by (simp add: post_for_result_def call_def pure_call_def split: sum.splits)

lemma post_for_result_fails:
  "transport rq = Inl t \<Longrightarrow> fst (post_for_result transport rq) = Inl (Rethrown t)"
  by (simp add: post_for_result_def call_def)

lemma post_for_result_object:
  "transport rq = Inr (JObj kvs) \<Longrightarrow>
     fst (post_for_result transport rq) =
       Inr (case map_of kvs ''result'' of None \<Rightarrow> JUndefined | Some v \<Rightarrow> v)"
  by (simp add: post_for_result_def call_def pure_call_def)

lemma post_for_result_null:
  "transport rq = Inr JNull \<or> transport rq = Inr JUndefined \<Longrightarrow>
     fst (post_for_result transport rq) = Inl (Rethrown type_error)"
  by (auto simp: post_for_result_def call_def pure_call_def)

lemma post_for_result_other:
  "transport rq = Inr d \<Longrightarrow> d \<noteq> JNull \<Longrightarrow> d \<noteq> JUndefined \<Longrightarrow> \<forall>kvs. d \<noteq> JObj kvs \<Longrightarrow>
     fst (post_for_result transport rq) = Inr JUndefined"
  by (cases d) (simp_all add: post_for_result_def call_def pure_call_def)

text \<open>
  C7, as the claim states it, fails. An answer that carries a JSON-RPC error envelope is
  not an error of the call: the client's \<open>getGasPrice\<close> and the server's \<open>shardeumRPC\<close>
  return \<open>undefined\<close>, the \<open>result\<close> field the envelope does not have. And the
  envelope of \<open>getGasPrice\<close> has no \<open>params\<close> field.
\<close>

theorem rpc_error_envelope_is_not_an_error:
  "getGasPrice error_envelope_transport =
     (Inr JUndefined, [HttpPost (rpc_request rpcUrl ''eth_gasPrice'' None)])
   \<and> e_params (h_body (rpc_request rpcUrl ''eth_gasPrice'' None)) = None
   \<and> shardeumRPC error_envelope_transport ''eth_gasPrice'' None =
     (Inr JUndefined, [HttpPost (rpc_request SHARDEUM_RPC ''eth_gasPrice'' (Some []))])"
  by (simp add: getGasPrice_def shardeumRPC_def post_for_result_def call_def pure_call_def
      error_envelope_transport_def rpc_request_def)

text \<open>
  C7, amended. Every chain RPC function makes one HTTP POST and no second one, carrying
  the envelope \<open>jsonrpc: "2.0"\<close>, \<open>id: 1\<close>, the method, and the \<open>params\<close> written
  in its definition (none for \<open>getChainId\<close>, \<open>getGasPrice\<close> and \<open>getBlockNumber\<close> of
  the client). It fails with the transport's error when the transport fails. When the
  transport yields a body that is an object, it returns the \<open>result\<close> field of the
  body, \<open>undefined\<close> when the body has none, as an error envelope; when the body is
  \<open>null\<close> (or \<open>undefined\<close>) reading the field fails with a \<open>TypeError\<close>, which is
  the failure of the call; for every other body (an array, a string, a number, a
  boolean) it returns \<open>undefined\<close>.
\<close>

theorem rpc_call_contract:
  "h_verb (rpc_request url m ps) = ''POST''
   \<and> h_url (rpc_request url m ps) = url
   \<and> e_jsonrpc (h_body (rpc_request url m ps)) = ''2.0''
   \<and> e_id (h_body (rpc_request url m ps)) = 1
   \<and> e_method (h_body (rpc_request url m ps)) = m
   \<and> e_params (h_body (rpc_request url m ps)) = ps
   \<and> snd (post_for_result transport rq) = [HttpPost rq]
   \<and> (transport rq = Inl t \<longrightarrow> fst (post_for_result transport rq) = Inl (Rethrown t))
   \<and> (transport rq = Inr (JObj kvs) \<longrightarrow>
        fst (post_for_result transport rq) =
          Inr (case map_of kvs ''result'' of None \<Rightarrow> JUndefined | Some v \<Rightarrow> v))
   \<and> (transport rq = Inr JNull \<or> transport rq = Inr JUndefined \<longrightarrow>
        fst (post_for_result transport rq) = Inl (Rethrown type_error))
   \<and> (transport rq = Inr d \<and> d \<noteq> JNull \<and> d \<noteq> JUndefined \<and> (\<forall>fields. d \<noteq> JObj fields) \<longrightarrow>
        fst (post_for_result transport rq) = Inr JUndefined)
   \<and> getChainId transport = post_for_result transport (rpc_request rpcUrl ''eth_chainId'' None)
   \<and> getGasPrice transport = post_for_result transport (rpc_request rpcUrl ''eth_gasPrice'' None)
   \<and> getBlockNumber transport =
        post_for_result transport (rpc_request rpcUrl ''eth_blockNumber'' None)
   \<and> getShardeumBalance transport a =
        post_for_result transport
          (rpc_request rpcUrl ''eth_getBalance'' (Some [JStr a, JStr ''latest'']))
   \<and> getTransactionCount transport a =
        post_for_result transport
          (rpc_request rpcUrl ''eth_getTransactionCount'' (Some [JStr a, JStr ''latest'']))
   \<and> estimateGas transport obj =
        post_for_result transport
          (rpc_request rpcUrl ''eth_estimateGas'' (Some [obj, JStr ''latest'']))
   \<and> getTransactionReceipt transport h =
        post_for_result transport
          (rpc_request rpcUrl ''eth_getTransactionReceipt'' (Some [JStr h]))
   \<and> getTransactionByHash transport h =
        post_for_result transport
          (rpc_request rpcUrl ''eth_getTransactionByHash'' (Some [JStr h]))
   \<and> getNetworkAccount transport =
        post_for_result transport (rpc_request rpcUrl ''shardeum_getNetworkAccount'' (Some []))
   \<and> getNodeList transport (JNum page) (JNum limit) =
        post_for_result transport
          (rpc_request rpcUrl ''shardeum_getNodeList''
             (Some [JObj [(''page'', JNum page), (''limit'', JNum limit)]]))
   \<and> shardeumRPC transport m None =
        post_for_result transport (rpc_request SHARDEUM_RPC m (Some []))
   \<and> shardeumRPC transport m (Some params) =
        post_for_result transport (rpc_request SHARDEUM_RPC m (Some params))"
proof -
  have body: "(transport rq = Inl t \<longrightarrow> fst (post_for_result transport rq) = Inl (Rethrown t))
   \<and> (transport rq = Inr (JObj kvs) \<longrightarrow>
        fst (post_for_result transport rq) =
          Inr (case map_of kvs ''result'' of None \<Rightarrow> JUndefined | Some v \<Rightarrow> v))
   \<and> (transport rq = Inr JNull \<or> transport rq = Inr JUndefined \<longrightarrow>
        fst (post_for_result transport rq) = Inl (Rethrown type_error))
   \<and> (transport rq = Inr d \<and> d \<noteq> JNull \<and> d \<noteq> JUndefined \<and> (\<forall>fields. d \<noteq> JObj fields) \<longrightarrow>
        fst (post_for_result transport rq) = Inr JUndefined)"
    using post_for_result_fails [of transport rq t] post_for_result_object [of transport rq kvs]
      post_for_result_null [of transport rq] post_for_result_other [of transport rq d]
    by blast
  have fns: "h_verb (rpc_request url m ps) = ''POST''
   \<and> h_url (rpc_request url m ps) = url
   \<and> e_jsonrpc (h_body (rpc_request url m ps)) = ''2.0''
   \<and> e_id (h_body (rpc_request url m ps)) = 1
   \<and> e_method (h_body (rpc_request url m ps)) = m
   \<and> e_params (h_body (rpc_request url m ps)) = ps
   \<and> snd (post_for_result transport rq) = [HttpPost rq]
   \<and> getChainId transport = post_for_result transport (rpc_request rpcUrl ''eth_chainId'' None)
   \<and> getGasPrice transport = post_for_result transport (rpc_request rpcUrl ''eth_gasPrice'' None)
   \<and> getBlockNumber transport =
        post_for_result transport (rpc_request rpcUrl ''eth_blockNumber'' None)
   \<and> getShardeumBalance transport a =
        post_for_result transport
          (rpc_request rpcUrl ''eth_getBalance'' (Some [JStr a, JStr ''latest'']))
   \<and> getTransactionCount transport a =
        post_for_result transport
          (rpc_request rpcUrl ''eth_getTransactionCount'' (Some [JStr a, JStr ''latest'']))
   \<and> estimateGas transport obj =
        post_for_result transport
          (rpc_request rpcUrl ''eth_estimateGas'' (Some [obj, JStr ''latest'']))
   \<and> getTransactionReceipt transport h =
        post_for_result transport
          (rpc_request rpcUrl ''eth_getTransactionReceipt'' (Some [JStr h]))
   \<and> getTransactionByHash transport h =
        post_for_result transport
          (rpc_request rpcUrl ''eth_getTransactionByHash'' (Some [JStr h]))
   \<and> getNetworkAccount transport =
        post_for_result transport (rpc_request rpcUrl ''shardeum_getNetworkAccount'' (Some []))
   \<and> getNodeList transport (JNum page) (JNum limit) =
        post_for_result transport
          (rpc_request rpcUrl ''shardeum_getNodeList''
             (Some [JObj [(''page'', JNum page), (''limit'', JNum limit)]]))
   \<and> shardeumRPC transport m None =
        post_for_result transport (rpc_request SHARDEUM_RPC m (Some []))
   \<and> shardeumRPC transport m (Some params) =
        post_for_result transport (rpc_request SHARDEUM_RPC m (Some params))"
    by (simp add: rpc_request_def post_for_result_trace getChainId_def getGasPrice_def
        getBlockNumber_def getShardeumBalance_def getTransactionCount_def estimateGas_def
        getTransactionReceipt_def getTransactionByHash_def getNetworkAccount_def shardeumRPC_def
        getNodeList_def)
  from body fns show ?thesis by blast
qed

theorem rpc_call_contract_witness:
  "getGasPrice failing_transport =
     (Inl (Rethrown \<lparr>err_code = JUndefined, err_message = ''Failed to fetch''\<rparr>),
      [HttpPost (rpc_request rpcUrl ''eth_gasPrice'' None)])
   \<and> getGasPrice good_transport =
     (Inr (JStr ''0x3b9aca00''), [HttpPost (rpc_request rpcUrl ''eth_gasPrice'' None)])
   \<and> getGasPrice (\<lambda>rq. Inr JNull) =
     (Inl (Rethrown type_error), [HttpPost (rpc_request rpcUrl ''eth_gasPrice'' None)])
   \<and> getGasPrice (\<lambda>rq. Inr (JArr [])) =
     (Inr JUndefined, [HttpPost (rpc_request rpcUrl ''eth_gasPrice'' None)])"
proof -
  have a: "getGasPrice failing_transport =
     (Inl (Rethrown \<lparr>err_code = JUndefined, err_message = ''Failed to fetch''\<rparr>),
      [HttpPost (rpc_request rpcUrl ''eth_gasPrice'' None)])"
    using rpc_call_contract [where transport = failing_transport
      and rq = "rpc_request rpcUrl ''eth_gasPrice'' None"
      and t = "\<lparr>err_code = JUndefined, err_message = ''Failed to fetch''\<rparr>"
      and kvs = "[]" and d = JNull]
    by (simp add: prod_eq_iff failing_transport_def)
  have b: "getGasPrice good_transport =
     (Inr (JStr ''0x3b9aca00''), [HttpPost (rpc_request rpcUrl ''eth_gasPrice'' None)])"
    using rpc_call_contract [where transport = good_transport
      and rq = "rpc_request rpcUrl ''eth_gasPrice'' None"
      and kvs = "[(''jsonrpc'', JStr ''2.0''), (''id'', JNum 1), (''result'', JStr ''0x3b9aca00'')]"
      and d = JNull]
    by (simp add: prod_eq_iff good_transport_def rpc_request_def)
  have c: "getGasPrice (\<lambda>rq. Inr JNull) =
     (Inl (Rethrown type_error), [HttpPost (rpc_request rpcUrl ''eth_gasPrice'' None)])"
    using rpc_call_contract [where transport = "\<lambda>rq. Inr JNull"
      and rq = "rpc_request rpcUrl ''eth_gasPrice'' None" and kvs = "[]" and d = JNull]
    by (simp add: prod_eq_iff)
  have d: "getGasPrice (\<lambda>rq. Inr (JArr [])) =
     (Inr JUndefined, [HttpPost (rpc_request rpcUrl ''eth_gasPrice'' None)])"
    using rpc_call_contract [where transport = "\<lambda>rq. Inr (JArr [])"
      and rq = "rpc_request rpcUrl ''eth_gasPrice'' None" and kvs = "[]" and d = "JArr []"]
    by (simp add: prod_eq_iff)
  from a b c d show ?thesis by blast
qed

section \<open>The network check of \<open>sendTip\<close>\<close>

lemma verifyNetwork_wrong:
  "req chainId_request \<noteq> Inr (JStr ''0x1f93'') \<Longrightarrow>
     verifyNetwork (Some req) = (False, [ProviderRequest chainId_request])"
  by (simp add: verifyNetwork_def SHARDEUM_CHAIN_ID_def)

lemma chainId_request_not_special:
  "\<not> is_gas_estimation (ProviderRequest chainId_request)"
  "\<not> is_submission (ProviderRequest chainId_request)"
  "\<not> is_gas_estimation GetSigner" "\<not> is_submission GetSigner"
  by (simp_all add: is_gas_estimation_def is_submission_def chainId_request_def)

text \<open>
  C2. When the provider's answer to \<open>eth_chainId\<close> is not \<open>0x1f93\<close>, \<open>sendTip\<close> of
  either service class fails, and none of its calls is a gas estimation, a gas price
  query or a transaction submission. The failure is the wrong-network error whenever
  the network check is reached: in \<open>ShardeumAPI\<close> when the service has or obtains a
  signer (it fails before the check otherwise), in \<open>Web3Service\<close> when its library
  handle exists.
\<close>

theorem sendTip_wrong_network:
  assumes "env_ethereum env = Some req" and "req chainId_request \<noteq> Inr (JStr ''0x1f93'')"
  shows "(\<exists>e. fst (ShardeumAPI_sendTip env st toAddress amt) = Inl e)
       \<and> (\<forall>ev\<in>set (snd (ShardeumAPI_sendTip env st toAddress amt)).
             \<not> is_gas_estimation ev \<and> \<not> is_submission ev)
       \<and> (api_signer (ensure_signer env st) \<noteq> None \<longrightarrow>
             fst (ShardeumAPI_sendTip env st toAddress amt) = Inl SwitchBeforeTransactions)
       \<and> (\<exists>e. fst (Web3Service_sendTip parseFloat w (Some req) toAddress amt) = Inl e)
       \<and> (\<forall>ev\<in>set (snd (Web3Service_sendTip parseFloat w (Some req) toAddress amt)).
             \<not> is_gas_estimation ev \<and> \<not> is_submission ev)
       \<and> (w \<noteq> None \<longrightarrow>
             Web3Service_sendTip parseFloat w (Some req) toAddress amt =
               (Inl SwitchBeforeTips, [ProviderRequest chainId_request]))"
proof -
  have vn: "verifyNetwork (Some req) = (False, [ProviderRequest chainId_request])"
    using assms(2) by (rule verifyNetwork_wrong)
  have api: "(\<exists>e. fst (ShardeumAPI_sendTip env st toAddress amt) = Inl e)
       \<and> (\<forall>ev\<in>set (snd (ShardeumAPI_sendTip env st toAddress amt)).
             \<not> is_gas_estimation ev \<and> \<not> is_submission ev)
       \<and> (api_signer (ensure_signer env st) \<noteq> None \<longrightarrow>
             fst (ShardeumAPI_sendTip env st toAddress amt) = Inl SwitchBeforeTransactions)"
  proof (cases "api_signer st")
    case (Some sg)
    then show ?thesis
      using assms(1) vn
      by (simp add: ShardeumAPI_sendTip_def ShardeumAPI_sendTransaction_def thenE_def
          ensure_signer_def chainId_request_not_special)
  next
    case None
    show ?thesis
    proof (cases "env_getSigner env")
      case (Inl t)
      then show ?thesis
        using assms(1) vn None
        by (simp add: ShardeumAPI_sendTip_def ShardeumAPI_sendTransaction_def thenE_def
            call_def ensure_signer_def chainId_request_not_special)
    next
      case (Inr sg)
      then show ?thesis
        using assms(1) vn None
        by (simp add: ShardeumAPI_sendTip_def ShardeumAPI_sendTransaction_def thenE_def
            call_def ensure_signer_def chainId_request_not_special)
    qed
  qed
  have w3: "(\<exists>e. fst (Web3Service_sendTip parseFloat w (Some req) toAddress amt) = Inl e)
       \<and> (\<forall>ev\<in>set (snd (Web3Service_sendTip parseFloat w (Some req) toAddress amt)).
             \<not> is_gas_estimation ev \<and> \<not> is_submission ev)
       \<and> (w \<noteq> None \<longrightarrow>
             Web3Service_sendTip parseFloat w (Some req) toAddress amt =
               (Inl SwitchBeforeTips, [ProviderRequest chainId_request]))"
    using vn by (cases w) (simp_all add: Web3Service_sendTip_def chainId_request_not_special)
  from api w3 show ?thesis by blast
qed

theorem sendTip_wrong_network_witness:
  "ShardeumAPI_sendTip mainnet_env fresh_api ''0x26d6a3805cbae5d5a510443a15129bec456cacff'' ''1'' =
     (Inl SwitchBeforeTransactions, [GetSigner, ProviderRequest chainId_request])
   \<and> Web3Service_sendTip sample_parseFloat (Some sample_web3) (Some mainnet_provider)
        ''0x26d6a3805cbae5d5a510443a15129bec456cacff'' ''1'' =
     (Inl SwitchBeforeTips, [ProviderRequest chainId_request])"
proof -
  have a: "env_ethereum mainnet_env = Some mainnet_provider"
    by (simp add: mainnet_env_def)
  have b: "mainnet_provider chainId_request \<noteq> Inr (JStr ''0x1f93'')"
    by (simp add: mainnet_provider_def chainId_request_def)
  have c: "api_signer (ensure_signer mainnet_env fresh_api) \<noteq> None"
    by (simp add: ensure_signer_def mainnet_env_def fresh_api_def)
  have d: "snd (ShardeumAPI_sendTip mainnet_env fresh_api
                  ''0x26d6a3805cbae5d5a510443a15129bec456cacff'' ''1'') =
             [GetSigner, ProviderRequest chainId_request]"
    using b
    by (simp add: ShardeumAPI_sendTip_def ShardeumAPI_sendTransaction_def mainnet_env_def
        fresh_api_def call_def verifyNetwork_def SHARDEUM_CHAIN_ID_def)
  show ?thesis
    using sendTip_wrong_network [where env = mainnet_env and req = mainnet_provider
        and st = fresh_api and w = "Some sample_web3" and parseFloat = sample_parseFloat
        and toAddress = "''0x26d6a3805cbae5d5a510443a15129bec456cacff''" and amt = "''1''", OF a b]
      c d
    by (simp add: prod_eq_iff)
qed

section \<open>Base-unit conversion\<close>

lemma radix_value_snoc: "radix_value b (s @ [c]) = b * radix_value b s + digit_val c"
  by (simp add: radix_value_def)

lemma radix_value_Nil: "radix_value b [] = 0"
  by (simp add: radix_value_def)

lemma radix_value_append:
  "radix_value b (s @ t) = radix_value b s * b ^ length t + radix_value b t"
proof (induction t rule: rev_induct)
  case Nil
  then show ?case by (simp add: radix_value_Nil)
next
  case (snoc c t)
  have "radix_value b (s @ t @ [c]) = b * radix_value b (s @ t) + digit_val c"
    using radix_value_snoc [of b "s @ t" c] by simp
  then show ?case
    by (simp add: snoc.IH radix_value_snoc algebra_simps)
qed

lemma digit_val_zero: "digit_val CHR ''0'' = 0"
  by (simp add: digit_val_def)

lemma radix_value_zeros: "radix_value b (replicate k CHR ''0'') = 0"
proof (induction k)
  case 0
  then show ?case by (simp add: radix_value_Nil)
next
  case (Suc k)
  have "replicate (Suc k) CHR ''0'' = replicate k CHR ''0'' @ [CHR ''0'']"
    by (simp add: replicate_append_same)
  then have "radix_value b (replicate (Suc k) CHR ''0'') =
      b * radix_value b (replicate k CHR ''0'') + digit_val CHR ''0''"
    by (simp only: radix_value_snoc)
  then show ?case
    by (simp only: Suc.IH digit_val_zero)
qed

lemma radix_value_leading_zeros: "radix_value b (replicate k CHR ''0'' @ s) = radix_value b s"
  by (simp add: radix_value_append radix_value_zeros)

lemma digit_val_digit_char: "d < 16 \<Longrightarrow> digit_val (digit_char d) = d"
proof -
  assume "d < 16"
  then have "d \<in> {0, 1, 2, 3, 4, 5, 6, 7, 8, 9, 10, 11, 12, 13, 14, 15}" by simp arith
  then show ?thesis
    by (auto simp: digit_val_def digit_char_def)
qed

lemma is_digit_digit_char: "d < 10 \<Longrightarrow> is_digit (digit_char d)"
proof -
  assume "d < 10"
  then have "d \<in> {0, 1, 2, 3, 4, 5, 6, 7, 8, 9}" by simp arith
  then show ?thesis
    by (auto simp: is_digit_def digit_char_def)
qed

lemma radix_value_radix_string:
  "2 \<le> b \<Longrightarrow> b \<le> 16 \<Longrightarrow> radix_value b (radix_string b n) = n"
proof (induction b n rule: radix_string.induct)
  case (1 b n)
  show ?case
  proof (cases "n < b")
    case True
    then show ?thesis
      using "1.prems"
      by (simp add: radix_string.simps [of b n] radix_value_def digit_val_digit_char)
  next
    case False
    then have ih: "radix_value b (radix_string b (n div b)) = n div b"
      using "1.IH" "1.prems" by simp
    have "n mod b < 16" using "1.prems" by (meson mod_less_divisor less_le_trans not_less zero_less_numeral le_trans pos2)
    then show ?thesis
      using False "1.prems" ih
      by (simp add: radix_string.simps [of b n] radix_value_snoc digit_val_digit_char)
  qed
qed

lemma digits_radix_string: "list_all is_digit (radix_string 10 n)"
proof (induction "10::nat" n rule: radix_string.induct)
  case (1 n)
  show ?case
  proof (cases "n < 10")
    case True
    then show ?thesis by (simp add: radix_string.simps [of 10 n] is_digit_digit_char)
  next
    case False
    then show ?thesis
      using "1.hyps" by (simp add: radix_string.simps [of 10 n] is_digit_digit_char)
  qed
qed

lemma radix_string_nonempty: "radix_string b n \<noteq> []"
  by (simp add: radix_string.simps [of b n])


lemma strip_zeros_decomp: "\<exists>k. s = replicate k CHR ''0'' @ strip_zeros s"
proof (induction s rule: strip_zeros.induct)
  case (1 c d cs)
  show ?case
  proof (cases "c = CHR ''0''")
    case True
    then obtain k where "d # cs = replicate k CHR ''0'' @ strip_zeros (d # cs)"
      using "1.IH" by blast
    then have "c # d # cs = replicate (Suc k) CHR ''0'' @ strip_zeros (c # d # cs)"
      using True by simp
    then show ?thesis by blast
  next
    case False
    then have "c # d # cs = replicate 0 CHR ''0'' @ strip_zeros (c # d # cs)" by simp
    then show ?thesis by blast
  qed
qed (simp_all add: exI [of _ 0])

lemma strip_zeros_nonempty: "s \<noteq> [] \<Longrightarrow> strip_zeros s \<noteq> []"
  by (induction s rule: strip_zeros.induct) auto

lemma strip_zeros_all: "list_all P s \<Longrightarrow> list_all P (strip_zeros s)"
  by (induction s rule: strip_zeros.induct) auto

lemma strip_zeros_length: "length (strip_zeros s) \<le> length s"
  by (induction s rule: strip_zeros.induct) auto

lemma strip_zeros_value: "radix_value b (strip_zeros s) = radix_value b s"
proof -
  obtain k where "s = replicate k CHR ''0'' @ strip_zeros s"
    using strip_zeros_decomp by blast
  then have "radix_value b s = radix_value b (replicate k CHR ''0'' @ strip_zeros s)"
    by simp
  then show ?thesis by (simp only: radix_value_leading_zeros)
qed

lemma strip_trailing_pad:
  "rev (strip_zeros (rev s)) @ replicate (length s - length (strip_zeros (rev s))) CHR ''0'' = s"
proof -
  obtain k where k: "rev s = replicate k CHR ''0'' @ strip_zeros (rev s)"
    using strip_zeros_decomp by blast
  then have "length (rev s) = k + length (strip_zeros (rev s))"
    by (metis length_append length_replicate)
  then have kk: "k = length s - length (strip_zeros (rev s))" by simp
  have "s = rev (replicate k CHR ''0'' @ strip_zeros (rev s))"
    using k by (metis rev_rev_ident)
  then have "s = rev (strip_zeros (rev s)) @ replicate k CHR ''0''" by simp
  then show ?thesis using kk by simp
qed

lemma takeWhile_digits_point:
  "list_all is_digit ws \<Longrightarrow> takeWhile is_digit (ws @ CHR ''.'' # fs) = ws"
  by (induction ws) (auto simp: is_digit_def)

lemma dropWhile_digits_point:
  "list_all is_digit ws \<Longrightarrow> dropWhile is_digit (ws @ CHR ''.'' # fs) = CHR ''.'' # fs"
  by (induction ws) (auto simp: is_digit_def)

lemma digit_not_minus: "is_digit c \<Longrightarrow> c \<noteq> CHR ''-''"
  by (auto simp: is_digit_def)

text \<open>Parsing a string of the written form: a whole part, a point, a fraction.\<close>

lemma parseEther_written:
  assumes ws: "list_all is_digit ws" "ws \<noteq> []"
      and fs: "list_all is_digit fs" "length fs \<le> 18"
      and rng: "int (radix_value 10 (ws @ fs @ replicate (18 - length fs) CHR ''0'')) < 2 ^ 511"
  shows "parseEther (ws @ CHR ''.'' # fs) =
           Inr (int (radix_value 10 (ws @ fs @ replicate (18 - length fs) CHR ''0'')))"
proof -
  have hd_ws: "hd (ws @ CHR ''.'' # fs) \<noteq> CHR ''-''"
    using ws by (cases ws) (auto dest: digit_not_minus)
  have pad: "take 18 (fs @ replicate (18 - length fs) CHR ''0'') = fs @ replicate (18 - length fs) CHR ''0''"
    using fs(2) by simp
  have nonneg: "- (2 ^ 511) \<le> int (radix_value 10 (ws @ fs @ replicate (18 - length fs) CHR ''0''))"
    by (rule order_trans [of _ 0]) simp_all
  show ?thesis
    using ws fs rng hd_ws pad nonneg
    by (simp add: parseEther_def Let_def takeWhile_digits_point dropWhile_digits_point)
qed

lemma parseEther_written_minus:
  assumes ws: "list_all is_digit ws" "ws \<noteq> []"
      and fs: "list_all is_digit fs" "length fs \<le> 18"
      and rng: "int (radix_value 10 (ws @ fs @ replicate (18 - length fs) CHR ''0'')) \<le> 2 ^ 511"
  shows "parseEther (CHR ''-'' # ws @ CHR ''.'' # fs) =
           Inr (- int (radix_value 10 (ws @ fs @ replicate (18 - length fs) CHR ''0'')))"
proof -
  have pad: "take 18 (fs @ replicate (18 - length fs) CHR ''0'') = fs @ replicate (18 - length fs) CHR ''0''"
    using fs(2) by simp
  have neg_ok: "- int (radix_value 10 (ws @ fs @ replicate (18 - length fs) CHR ''0'')) < 2 ^ 511"
    by (rule le_less_trans [of _ 0]) simp_all
  show ?thesis
    using ws fs rng pad neg_ok
    by (simp add: parseEther_def Let_def takeWhile_digits_point dropWhile_digits_point)
qed

lemma parseEther_range: "parseEther a = Inr w \<Longrightarrow> - (2 ^ 511) \<le> w \<and> w < 2 ^ 511"
  by (auto simp: parseEther_def Let_def split: if_splits)

lemma is_digit_zero: "is_digit CHR ''0''"
  by (simp add: is_digit_def)

lemma formatEther_parts:
  "\<exists>ws fs. formatEther w = (if w < 0 then ''-'' else []) @ ws @ CHR ''.'' # fs
     \<and> list_all is_digit ws \<and> ws \<noteq> [] \<and> list_all is_digit fs \<and> length fs \<le> 18
     \<and> radix_value 10 (ws @ fs @ replicate (18 - length fs) CHR ''0'') = nat \<bar>w\<bar>"
proof -
  define str where "str = radix_string 10 (nat \<bar>w\<bar>)"
  define padded where "padded = replicate (19 - length str) CHR ''0'' @ str"
  define W0 where "W0 = take (length padded - 18) padded"
  define F0 where "F0 = drop (length padded - 18) padded"
  define ws where "ws = strip_zeros W0"
  define fs where "fs = rev (strip_zeros (rev F0))"
  have len: "19 \<le> length padded" by (simp add: padded_def)
  have "list_all is_digit str" by (simp add: str_def digits_radix_string)
  then have digs: "list_all is_digit padded"
    by (auto simp: padded_def list_all_iff is_digit_zero)
  have lenF0: "length F0 = 18" using len by (simp add: F0_def)
  have W0ne: "W0 \<noteq> []" using len by (auto simp: W0_def)
  have dW0: "list_all is_digit W0"
    using digs by (auto simp: W0_def list_all_iff dest: in_set_takeD)
  have dF0: "list_all is_digit F0"
    using digs by (auto simp: F0_def list_all_iff dest: in_set_dropD)
  have joined: "W0 @ F0 = padded" by (simp add: W0_def F0_def)
  have f1: "formatEther w = (if w < 0 then ''-'' else []) @ ws @ CHR ''.'' # fs"
    by (simp add: formatEther_def Let_def ws_def fs_def W0_def F0_def padded_def str_def)
  have f2: "list_all is_digit ws" using dW0 by (simp add: ws_def strip_zeros_all)
  have f3: "ws \<noteq> []" using W0ne by (simp add: ws_def strip_zeros_nonempty)
  have f4: "list_all is_digit fs" using dF0 by (simp add: fs_def strip_zeros_all)
  have lenfs: "length fs = length (strip_zeros (rev F0))" by (simp add: fs_def)
  have "length (strip_zeros (rev F0)) \<le> length (rev F0)" by (rule strip_zeros_length)
  then have f5: "length fs \<le> 18" using lenF0 lenfs by simp
  have "rev (strip_zeros (rev F0)) @ replicate (length F0 - length (strip_zeros (rev F0))) CHR ''0'' = F0"
    by (rule strip_trailing_pad)
  then have padF: "fs @ replicate (18 - length fs) CHR ''0'' = F0"
    using lenF0 lenfs by (simp add: fs_def)
  have "radix_value 10 (ws @ F0) = radix_value 10 ws * 10 ^ 18 + radix_value 10 F0"
    using lenF0 by (simp add: radix_value_append)
  also have "\<dots> = radix_value 10 W0 * 10 ^ 18 + radix_value 10 F0"
    by (simp add: ws_def strip_zeros_value)
  also have "\<dots> = radix_value 10 (W0 @ F0)"
    using lenF0 by (simp add: radix_value_append)
  also have "\<dots> = radix_value 10 str"
    by (simp only: joined) (simp only: padded_def radix_value_leading_zeros)
  also have "\<dots> = nat \<bar>w\<bar>" by (simp add: str_def radix_value_radix_string)
  finally have f6: "radix_value 10 (ws @ fs @ replicate (18 - length fs) CHR ''0'') = nat \<bar>w\<bar>"
    using padF by simp
  from f1 f2 f3 f4 f5 f6 show ?thesis by blast
qed

lemma parseEther_formatEther:
  assumes "- (2 ^ 511) \<le> w" and "w < 2 ^ 511"
  shows "parseEther (formatEther w) = Inr w"
proof -
  obtain ws fs where p:
    "formatEther w = (if w < 0 then ''-'' else []) @ ws @ CHR ''.'' # fs"
    "list_all is_digit ws" "ws \<noteq> []" "list_all is_digit fs" "length fs \<le> 18"
    "radix_value 10 (ws @ fs @ replicate (18 - length fs) CHR ''0'') = nat \<bar>w\<bar>"
    using formatEther_parts [of w] by blast
  show ?thesis
  proof (cases "w < 0")
    case True
    then have "int (nat \<bar>w\<bar>) \<le> 2 ^ 511" using assms(1) by simp
    then have "int (radix_value 10 (ws @ fs @ replicate (18 - length fs) CHR ''0'')) \<le> 2 ^ 511"
      by (simp only: p(6))
    from parseEther_written_minus [OF p(2) p(3) p(4) p(5) this]
    show ?thesis using True by (simp only: p(1) p(6)) simp
  next
    case False
    then have "int (nat \<bar>w\<bar>) < 2 ^ 511" using assms(2) by simp
    then have "int (radix_value 10 (ws @ fs @ replicate (18 - length fs) CHR ''0'')) < 2 ^ 511"
      by (simp only: p(6))
    from parseEther_written [OF p(2) p(3) p(4) p(5) this]
    show ?thesis using False by (simp only: p(1) p(6)) simp
  qed
qed

text \<open>
  C4. For every amount string \<open>a\<close> that \<open>parseSHM\<close> accepts, writing its base-unit value
  with \<open>formatSHM\<close> and parsing the result gives the same base-unit value.
\<close>

theorem base_unit_round_trip:
  "parseSHM a = Inr w \<Longrightarrow> parseSHM (formatSHM w) = Inr w"
  using parseEther_formatEther [of w] parseEther_range [of a w]
  by (simp add: parseSHM_def formatSHM_def)

lemma parseEther_half: "parseEther ''0.5'' = Inr 500000000000000000"
proof -
  have v: "radix_value 10 (''0'' @ ''5'' @ replicate (18 - length ''5'') CHR ''0'') = 500000000000000000"
    by (simp only: radix_value_append radix_value_zeros) (simp add: radix_value_def digit_val_def)
  have r: "int (radix_value 10 (''0'' @ ''5'' @ replicate (18 - length ''5'') CHR ''0'')) < 2 ^ 511"
    by (simp only: v) simp
  have d0: "list_all is_digit ''0''" and d5: "list_all is_digit ''5''"
    by (simp_all add: is_digit_def)
  have "parseEther (''0'' @ CHR ''.'' # ''5'') =
          Inr (int (radix_value 10 (''0'' @ ''5'' @ replicate (18 - length ''5'') CHR ''0'')))"
    using d0 _ d5 _ r by (rule parseEther_written) simp_all
  then show ?thesis by (simp only: v) simp
qed

theorem base_unit_round_trip_witness:
  "parseSHM ''0.5'' = Inr 500000000000000000
   \<and> parseSHM (formatSHM 500000000000000000) = Inr 500000000000000000"
  using base_unit_round_trip [of "''0.5''" 500000000000000000] parseEther_half
  by (simp add: parseSHM_def)

section \<open>The tip dialog: validation and recording\<close>

lemma radix_value_Cons_zero: "radix_value b (CHR ''0'' # s) = radix_value b s"
  using radix_value_leading_zeros [of b 1 s] by simp

lemma parseEther_0: "parseEther ''0'' = Inr 0"
  by (simp add: parseEther_def is_digit_def Let_def radix_value_Cons_zero radix_value_zeros)

lemma toString16_0: "toString16 0 = ''0''"
  by (simp add: toString16_def radix_string.simps digit_char_def)

lemma good_chain: "verifyNetwork (Some good_provider) = (True, [ProviderRequest chainId_request])"
  by (simp add: verifyNetwork_def good_provider_def chainId_request_def SHARDEUM_CHAIN_ID_def)

lemma radix_string_0: "radix_string 10 0 = ''0''"
  by (simp add: radix_string.simps digit_char_def)

lemma radix_string_1e18: "radix_string 10 1000000000000000000 = ''1000000000000000000''"
  by (simp add: radix_string.simps digit_char_def)

lemma replicate_numeral: "replicate (numeral k) x = x # replicate (pred_numeral k) x"
  by (simp add: numeral_eq_Suc)

lemma formatEther_0: "formatEther 0 = ''0.0''"
  by (simp add: formatEther_def radix_string_0 replicate_numeral Let_def)

lemma formatEther_1e18: "formatEther 1000000000000000000 = ''1.0''"
  by (simp add: formatEther_def radix_string_1e18 Let_def)

lemma toString16_gas: "toString16 21000 = ''5208''" "toString16 1000000000 = ''3b9aca00''"
  by (simp_all add: toString16_def radix_string.simps digit_char_def)

lemma web3_sendTip_zero:
  "Web3Service_sendTip sample_parseFloat (Some sample_web3) (Some good_provider)
     ''0x26d6a3805cbae5d5a510443a15129bec456cacff'' ''0'' =
     (Inr (JStr sample_hash),
      [ProviderRequest chainId_request, ProviderRequest accounts_request,
       Web3GetBalance (JStr sample_account),
       Web3EstimateGas (JObj [(''from'', JStr sample_account),
                              (''to'', JStr ''0x26d6a3805cbae5d5a510443a15129bec456cacff''),
                              (''value'', JBig 0)]),
       Web3GetGasPrice,
       ProviderRequest (send_request
         (JObj [(''from'', JStr sample_account),
                (''to'', JStr ''0x26d6a3805cbae5d5a510443a15129bec456cacff''),
                (''value'', JBig 0), (''gas'', JStr ''0x5208''),
                (''gasPrice'', JStr ''0x3b9aca00'')]))])"
  by (simp add: Web3Service_sendTip_def good_chain sample_web3_def call_def pure_call_def
      good_provider_def accounts_request_def send_request_def amount_pattern_def is_digit_def
      parseEther_0 formatEther_0 formatEther_1e18 sample_parseFloat_def js_strict_neq_def
      Web3Service_getBalance_def toString16_gas Let_def)

text \<open>
  C1, as the claim states it, fails: \<open>sendTip\<close> itself does not look at the sign of the
  amount or at the recipient, and only \<open>Web3Service.sendTip\<close> compares the amount
  with a balance (the one it fetches, not the session's). With a connected wallet on the
  expected chain, \<open>sendTip\<close> of either service class with the amount \<open>0\<close> (a value
  not above zero) estimates gas and submits the transaction.
\<close>

theorem sendTip_submits_zero_amount:
  "js_le (sample_parseFloat ''0'') (Fin 0)
   \<and> ShardeumAPI_sendTip good_env fresh_api ''0x26d6a3805cbae5d5a510443a15129bec456cacff'' ''0'' =
     (Inr sample_hash,
      [GetSigner, ProviderRequest chainId_request, SignerGetAddress,
       HttpPost (rpc_request rpcUrl ''eth_gasPrice'' None),
       HttpPost (rpc_request rpcUrl ''eth_estimateGas''
         (Some [JObj [(''from'', JStr sample_account),
                      (''to'', JStr ''0x26d6a3805cbae5d5a510443a15129bec456cacff''),
                      (''value'', JStr ''0x0''), (''gasPrice'', JStr ''0x3b9aca00'')],
                JStr ''latest''])),
       SignerSendTransaction
         \<lparr>tx_to = ''0x26d6a3805cbae5d5a510443a15129bec456cacff'', tx_value = 0,
          tx_gasPrice = JStr ''0x3b9aca00'', tx_gasLimit = JStr ''0x5208''\<rparr>])
   \<and> is_submission (last (snd (ShardeumAPI_sendTip good_env fresh_api
         ''0x26d6a3805cbae5d5a510443a15129bec456cacff'' ''0'')))
   \<and> fst (Web3Service_sendTip sample_parseFloat (Some sample_web3) (Some good_provider)
         ''0x26d6a3805cbae5d5a510443a15129bec456cacff'' ''0'') = Inr (JStr sample_hash)
   \<and> is_submission (last (snd (Web3Service_sendTip sample_parseFloat (Some sample_web3)
         (Some good_provider) ''0x26d6a3805cbae5d5a510443a15129bec456cacff'' ''0'')))"
proof -
  have api:
    "ShardeumAPI_sendTip good_env fresh_api ''0x26d6a3805cbae5d5a510443a15129bec456cacff'' ''0'' =
     (Inr sample_hash,
      [GetSigner, ProviderRequest chainId_request, SignerGetAddress,
       HttpPost (rpc_request rpcUrl ''eth_gasPrice'' None),
       HttpPost (rpc_request rpcUrl ''eth_estimateGas''
         (Some [JObj [(''from'', JStr sample_account),
                      (''to'', JStr ''0x26d6a3805cbae5d5a510443a15129bec456cacff''),
                      (''value'', JStr ''0x0''), (''gasPrice'', JStr ''0x3b9aca00'')],
                JStr ''latest''])),
       SignerSendTransaction
         \<lparr>tx_to = ''0x26d6a3805cbae5d5a510443a15129bec456cacff'', tx_value = 0,
          tx_gasPrice = JStr ''0x3b9aca00'', tx_gasLimit = JStr ''0x5208''\<rparr>])"
    by (simp add: ShardeumAPI_sendTip_def ShardeumAPI_sendTransaction_def good_env_def
        fresh_api_def good_signer_def good_chain call_def pure_call_def parseEther_0
        toString16_0 getGasPrice_def estimateGas_def post_for_result_def good_transport_def
        rpc_request_def)
  have le: "js_le (sample_parseFloat ''0'') (Fin 0)"
    by (simp add: js_le_def sample_parseFloat_def)
  show ?thesis
    by (simp add: api le web3_sendTip_zero is_submission_def send_request_def)
qed

text \<open>
  C1, amended. The checks are those of the dialog: \<open>handleSendTip\<close> runs
  \<open>validateForm\<close> first, and with an empty amount, an amount that parses to a value
  not above zero or above the balance of the session, or a creator address that
  \<open>isValidAddress\<close> refuses, it sets an error and returns without calling \<open>sendTip\<close>:
  no provider, signer or network call is made, so no transaction is submitted.
\<close>

theorem handleSendTip_rejects_invalid_input:
  assumes "amt = [] \<or> js_le (parseFloat amt) (Fin 0)
           \<or> js_gt (parseFloat amt) (parseFloat (ws_balance ws))
           \<or> \<not> ShardeumAPI_isValidAddress (env_isAddress env) (c_address cr)"
  shows "\<exists>e. (e = EnterValidAmount \<or> e = InsufficientBalanceUI \<or> e = InvalidCreatorAddress)
           \<and> handleSendTip parseFloat env st b ws cr amt m = (m\<lparr>m_error := Some e\<rparr>, st, b, [])"
  using assms by (auto simp: handleSendTip_def validateForm_def)

theorem handleSendTip_rejects_invalid_input_witness:
  "handleSendTip sample_parseFloat good_env fresh_api sample_backend sample_wallet bob ''0'' idle_modal
     = (idle_modal\<lparr>m_error := Some EnterValidAmount\<rparr>, fresh_api, sample_backend, [])
   \<and> handleSendTip sample_parseFloat good_env fresh_api sample_backend sample_wallet bob ''5'' idle_modal
     = (idle_modal\<lparr>m_error := Some InsufficientBalanceUI\<rparr>, fresh_api, sample_backend, [])
   \<and> handleSendTip sample_parseFloat good_env fresh_api sample_backend sample_wallet
        (hd (creators initial_store)) ''0.5'' idle_modal
     = (idle_modal\<lparr>m_error := Some InvalidCreatorAddress\<rparr>, fresh_api, sample_backend, [])"
proof -
  have a: "js_le (sample_parseFloat ''0'') (Fin 0)"
    by (simp add: js_le_def sample_parseFloat_def)
  have b: "js_gt (sample_parseFloat ''5'') (sample_parseFloat (ws_balance sample_wallet))"
    by (simp add: js_gt_def sample_parseFloat_def sample_wallet_def)
  have c: "\<not> ShardeumAPI_isValidAddress (env_isAddress good_env)
               (c_address (hd (creators initial_store)))"
    by (simp add: ShardeumAPI_isValidAddress_def good_env_def canonical_address_def
        initial_store_def)
  have v1: "validateForm sample_parseFloat (ShardeumAPI_isValidAddress (env_isAddress good_env)) ''0'' sample_wallet bob
              = Some EnterValidAmount"
    using a by (simp add: validateForm_def)
  have v2: "validateForm sample_parseFloat (ShardeumAPI_isValidAddress (env_isAddress good_env)) ''5'' sample_wallet bob
              = Some InsufficientBalanceUI"
    using b by (simp add: validateForm_def js_le_def sample_parseFloat_def)
  have v3: "validateForm sample_parseFloat (ShardeumAPI_isValidAddress (env_isAddress good_env)) ''0.5'' sample_wallet
              (hd (creators initial_store)) = Some InvalidCreatorAddress"
    using c by (simp add: validateForm_def js_le_def js_gt_def sample_parseFloat_def sample_wallet_def)
  show ?thesis
    using
      handleSendTip_rejects_invalid_input [where parseFloat = sample_parseFloat and amt = "''0''"
        and ws = sample_wallet and cr = bob and env = good_env and st = fresh_api
        and b = sample_backend and m = idle_modal]
      handleSendTip_rejects_invalid_input [where parseFloat = sample_parseFloat and amt = "''5''"
        and ws = sample_wallet and cr = bob and env = good_env and st = fresh_api
        and b = sample_backend and m = idle_modal]
      handleSendTip_rejects_invalid_input [where parseFloat = sample_parseFloat and amt = "''0.5''"
        and ws = sample_wallet and cr = "hd (creators initial_store)" and env = good_env
        and st = fresh_api and b = sample_backend and m = idle_modal]
      a b c v1 v2 v3
    by (simp add: handleSendTip_def)
qed

lemma post_tips_rejects:
  "b_txHash body = JUndefined \<or> b_txHash body = JNull \<or> b_txHash body = JStr [] \<Longrightarrow>
     post_tips unicode_lower add_tips now_ms now_iso s body =
       (s, BadRequest ''Missing required fields'')"
  by (auto simp: post_tips_def)

lemma post_tips_new_record:
  "transactions (fst (post_tips unicode_lower add_tips now_ms now_iso s body)) \<noteq> transactions s \<Longrightarrow>
     truthy (b_txHash body)
     \<and> (\<exists>tx. transactions (fst (post_tips unicode_lower add_tips now_ms now_iso s body)) =
                transactions s @ [tx]
              \<and> snd (post_tips unicode_lower add_tips now_ms now_iso s body) = Created tx
              \<and> t_status tx = ''pending'' \<and> t_txHash tx = b_txHash body)"
  by (auto simp: post_tips_def Let_def new_transaction_def split: if_splits jsval.splits)

lemma post_tips_created:
  "post_tips unicode_lower add_tips now_ms now_iso s body = (s', Created tx) \<Longrightarrow>
     t_status tx = ''pending'' \<and> t_txHash tx = b_txHash body \<and> truthy (b_txHash body)
     \<and> transactions s' = transactions s @ [tx]"
  by (auto simp: post_tips_def Let_def new_transaction_def split: if_splits jsval.splits)

lemma truthy_hash:
  "truthy v \<Longrightarrow> v \<noteq> JUndefined \<and> v \<noteq> JNull \<and> v \<noteq> JStr []"
  by (cases v) simp_all

lemma recordTip_created:
  "recordTip b body = (Inr tx, b') \<Longrightarrow>
     t_status tx = ''pending'' \<and> t_txHash tx = b_txHash body \<and> truthy (b_txHash body)
     \<and> transactions (srv_store b') = transactions (srv_store b) @ [tx]"
  by (auto simp: recordTip_def split: link.splits prod.splits tips_response.splits
      dest: post_tips_created)

lemma recordTip_store:
  "transactions (srv_store (snd (recordTip b body))) = transactions (srv_store b)
   \<or> (\<exists>tx. transactions (srv_store (snd (recordTip b body))) = transactions (srv_store b) @ [tx]
            \<and> t_status tx = ''pending'' \<and> t_txHash tx = b_txHash body \<and> truthy (b_txHash body))"
proof (cases "transactions (fst (post_tips (srv_lower b) (srv_add_tips b) (srv_now_ms b)
                 (srv_now_iso b) (srv_store b) body)) = transactions (srv_store b)")
  case True
  then show ?thesis
    by (auto simp: recordTip_def split: link.splits prod.splits tips_response.splits)
next
  case False
  from post_tips_new_record [OF False] show ?thesis
    by (auto simp: recordTip_def split: link.splits prod.splits tips_response.splits)
qed

lemma sendTip_hash_from_signer:
  assumes "ShardeumAPI_sendTip env st to amt = (Inr H, tr)"
  shows "\<exists>sg tx. api_signer (ensure_signer env st) = Some sg
           \<and> sg_sendTransaction sg tx = Inr H \<and> tx_to tx = to
           \<and> tr \<noteq> [] \<and> last tr = SignerSendTransaction tx"
  using assms
  by (auto simp: ShardeumAPI_sendTip_def ShardeumAPI_sendTransaction_def thenE_def call_def
      pure_call_def ensure_signer_def Let_def
      split: prod.splits sum.splits option.splits if_splits)

lemma sendTip_no_store_post:
  "ev \<in> set (snd (ShardeumAPI_sendTip env st to amt)) \<Longrightarrow> ev \<noteq> StorePost d"
  by (auto simp: ShardeumAPI_sendTip_def ShardeumAPI_sendTransaction_def thenE_def call_def
      pure_call_def verifyNetwork_def getGasPrice_def estimateGas_def post_for_result_def Let_def
      split: prod.splits sum.splits option.splits if_splits)

text \<open>
  C3. When \<open>sendTip\<close> returns the hash \<open>H\<close> (the hash the signer answered to the
  submission, the last event of \<open>sendTip\<close>), \<open>handleSendTip\<close> calls \<open>recordTip\<close> once,
  after the events of the submission, with \<open>txHash = H\<close>: the server after the run is
  the server after \<open>recordTip\<close> of that tip, and the record the store returns has the
  status \<open>pending\<close> and the hash \<open>H\<close>, which is then not empty. When \<open>sendTip\<close>
  fails, or the input is refused, the server is left as it was. So after every run the
  stored records are those of before, or those and one new record whose hash is the
  non-empty hash \<open>sendTip\<close> returned in that run. The store itself answers 400 and
  stores nothing for a request whose \<open>txHash\<close> is absent, \<open>null\<close> or empty.
\<close>

theorem tip_recorded_with_submitted_hash:
  "(validateForm parseFloat (ShardeumAPI_isValidAddress (env_isAddress env)) amt ws cr = None
      \<and> ShardeumAPI_sendTip env st (c_address cr) amt = (Inr H, tr) \<longrightarrow>
        b_txHash (tip_data ws cr amt H) = JStr H
        \<and> backend_of (handleSendTip parseFloat env st b ws cr amt m) =
            snd (recordTip b (tip_data ws cr amt H))
        \<and> m_txHash (fst (handleSendTip parseFloat env st b ws cr amt m)) = Some H
        \<and> (\<forall>tx b'. recordTip b (tip_data ws cr amt H) = (Inr tx, b') \<longrightarrow>
              handleSendTip parseFloat env st b ws cr amt m =
                (m\<lparr>m_error := None, m_txHash := Some H, m_isLoading := False\<rparr>,
                 ensure_signer env st, b',
                 tr @ [StorePost (tip_data ws cr amt H), OnTipSent])
              \<and> t_status tx = ''pending'' \<and> t_txHash tx = JStr H \<and> H \<noteq> []
              \<and> transactions (srv_store b') = transactions (srv_store b) @ [tx])
        \<and> (\<forall>e b'. recordTip b (tip_data ws cr amt H) = (Inl e, b') \<longrightarrow>
              handleSendTip parseFloat env st b ws cr amt m =
                (m\<lparr>m_error := Some (Caught e), m_txHash := Some H, m_isLoading := False\<rparr>,
                 ensure_signer env st, b', tr @ [StorePost (tip_data ws cr amt H)]))
        \<and> (\<exists>sg tx. api_signer (ensure_signer env st) = Some sg
              \<and> sg_sendTransaction sg tx = Inr H \<and> tx_to tx = c_address cr
              \<and> tr \<noteq> [] \<and> last tr = SignerSendTransaction tx))
   \<and> (validateForm parseFloat (ShardeumAPI_isValidAddress (env_isAddress env)) amt ws cr = None
      \<and> ShardeumAPI_sendTip env st (c_address cr) amt = (Inl failure, tr) \<longrightarrow>
        handleSendTip parseFloat env st b ws cr amt m =
          (m\<lparr>m_error := Some (Caught failure), m_isLoading := False\<rparr>, ensure_signer env st, b, tr))
   \<and> (validateForm parseFloat (ShardeumAPI_isValidAddress (env_isAddress env)) amt ws cr = Some refusal
        \<longrightarrow> handleSendTip parseFloat env st b ws cr amt m = (m\<lparr>m_error := Some refusal\<rparr>, st, b, []))
   \<and> (\<forall>ev\<in>set (events_of (handleSendTip parseFloat env st b ws cr amt m)).
         \<forall>d. ev = StorePost d \<longrightarrow>
           (\<exists>H tr. ShardeumAPI_sendTip env st (c_address cr) amt = (Inr H, tr)
                    \<and> d = tip_data ws cr amt H \<and> b_txHash d = JStr H))
   \<and> (transactions (srv_store (backend_of (handleSendTip parseFloat env st b ws cr amt m))) =
         transactions (srv_store b)
       \<or> (\<exists>H tr tx. ShardeumAPI_sendTip env st (c_address cr) amt = (Inr H, tr) \<and> H \<noteq> []
             \<and> transactions (srv_store (backend_of (handleSendTip parseFloat env st b ws cr amt m))) =
                 transactions (srv_store b) @ [tx]
             \<and> t_txHash tx = JStr H \<and> t_status tx = ''pending''))
   \<and> (recordTip b posted = (Inr stored, after) \<longrightarrow>
         t_status stored = ''pending'' \<and> t_txHash stored = b_txHash posted
         \<and> b_txHash posted \<noteq> JUndefined \<and> b_txHash posted \<noteq> JNull \<and> b_txHash posted \<noteq> JStr []
         \<and> transactions (srv_store after) = transactions (srv_store b) @ [stored])
   \<and> (b_txHash body = JUndefined \<or> b_txHash body = JNull \<or> b_txHash body = JStr [] \<longrightarrow>
         post_tips unicode_lower add_tips now_ms now_iso s body =
           (s, BadRequest ''Missing required fields''))
   \<and> (transactions (fst (post_tips unicode_lower add_tips now_ms now_iso s body)) \<noteq> transactions s \<longrightarrow>
         b_txHash body \<noteq> JUndefined \<and> b_txHash body \<noteq> JNull \<and> b_txHash body \<noteq> JStr []
         \<and> (\<exists>tx. transactions (fst (post_tips unicode_lower add_tips now_ms now_iso s body)) =
                    transactions s @ [tx]
                  \<and> snd (post_tips unicode_lower add_tips now_ms now_iso s body) = Created tx
                  \<and> t_status tx = ''pending'' \<and> t_txHash tx = b_txHash body))"
proof -
  let ?v = "validateForm parseFloat (ShardeumAPI_isValidAddress (env_isAddress env)) amt ws cr"
  let ?s = "ShardeumAPI_sendTip env st (c_address cr) amt"
  let ?h = "handleSendTip parseFloat env st b ws cr amt m"
  have p1: "?v = None \<and> ?s = (Inr H, tr) \<longrightarrow>
        b_txHash (tip_data ws cr amt H) = JStr H
        \<and> backend_of ?h = snd (recordTip b (tip_data ws cr amt H))
        \<and> m_txHash (fst ?h) = Some H
        \<and> (\<forall>tx b'. recordTip b (tip_data ws cr amt H) = (Inr tx, b') \<longrightarrow>
              ?h = (m\<lparr>m_error := None, m_txHash := Some H, m_isLoading := False\<rparr>,
                    ensure_signer env st, b',
                    tr @ [StorePost (tip_data ws cr amt H), OnTipSent])
              \<and> t_status tx = ''pending'' \<and> t_txHash tx = JStr H \<and> H \<noteq> []
              \<and> transactions (srv_store b') = transactions (srv_store b) @ [tx])
        \<and> (\<forall>e b'. recordTip b (tip_data ws cr amt H) = (Inl e, b') \<longrightarrow>
              ?h = (m\<lparr>m_error := Some (Caught e), m_txHash := Some H, m_isLoading := False\<rparr>,
                    ensure_signer env st, b', tr @ [StorePost (tip_data ws cr amt H)]))
        \<and> (\<exists>sg tx. api_signer (ensure_signer env st) = Some sg
              \<and> sg_sendTransaction sg tx = Inr H \<and> tx_to tx = c_address cr
              \<and> tr \<noteq> [] \<and> last tr = SignerSendTransaction tx)"
  proof
    assume a: "?v = None \<and> ?s = (Inr H, tr)"
    have h1: "b_txHash (tip_data ws cr amt H) = JStr H" by (simp add: tip_data_def)
    have h2: "backend_of ?h = snd (recordTip b (tip_data ws cr amt H))"
      using a by (simp add: handleSendTip_def backend_of_def split: prod.splits sum.splits)
    have h3: "m_txHash (fst ?h) = Some H"
      using a by (simp add: handleSendTip_def split: prod.splits sum.splits)
    have h4: "\<forall>tx b'. recordTip b (tip_data ws cr amt H) = (Inr tx, b') \<longrightarrow>
              ?h = (m\<lparr>m_error := None, m_txHash := Some H, m_isLoading := False\<rparr>,
                    ensure_signer env st, b',
                    tr @ [StorePost (tip_data ws cr amt H), OnTipSent])
              \<and> t_status tx = ''pending'' \<and> t_txHash tx = JStr H \<and> H \<noteq> []
              \<and> transactions (srv_store b') = transactions (srv_store b) @ [tx]"
    proof (intro allI impI)
      fix tx b'
      assume r: "recordTip b (tip_data ws cr amt H) = (Inr tx, b')"
      from recordTip_created [OF r] h1 have
        "t_status tx = ''pending'' \<and> t_txHash tx = JStr H \<and> H \<noteq> []
         \<and> transactions (srv_store b') = transactions (srv_store b) @ [tx]"
        by simp
      moreover have "?h = (m\<lparr>m_error := None, m_txHash := Some H, m_isLoading := False\<rparr>,
                    ensure_signer env st, b',
                    tr @ [StorePost (tip_data ws cr amt H), OnTipSent])"
        using a r by (simp add: handleSendTip_def)
      ultimately show "?h = (m\<lparr>m_error := None, m_txHash := Some H, m_isLoading := False\<rparr>,
                    ensure_signer env st, b',
                    tr @ [StorePost (tip_data ws cr amt H), OnTipSent])
              \<and> t_status tx = ''pending'' \<and> t_txHash tx = JStr H \<and> H \<noteq> []
              \<and> transactions (srv_store b') = transactions (srv_store b) @ [tx]"
        by blast
    qed
    have h5: "\<forall>e b'. recordTip b (tip_data ws cr amt H) = (Inl e, b') \<longrightarrow>
              ?h = (m\<lparr>m_error := Some (Caught e), m_txHash := Some H, m_isLoading := False\<rparr>,
                    ensure_signer env st, b', tr @ [StorePost (tip_data ws cr amt H)])"
      using a by (simp add: handleSendTip_def)
    have h6: "\<exists>sg tx. api_signer (ensure_signer env st) = Some sg
              \<and> sg_sendTransaction sg tx = Inr H \<and> tx_to tx = c_address cr
              \<and> tr \<noteq> [] \<and> last tr = SignerSendTransaction tx"
      using a sendTip_hash_from_signer [of env st "c_address cr" amt H tr] by blast
    from h1 h2 h3 h4 h5 h6 show "b_txHash (tip_data ws cr amt H) = JStr H
        \<and> backend_of ?h = snd (recordTip b (tip_data ws cr amt H))
        \<and> m_txHash (fst ?h) = Some H
        \<and> (\<forall>tx b'. recordTip b (tip_data ws cr amt H) = (Inr tx, b') \<longrightarrow>
              ?h = (m\<lparr>m_error := None, m_txHash := Some H, m_isLoading := False\<rparr>,
                    ensure_signer env st, b',
                    tr @ [StorePost (tip_data ws cr amt H), OnTipSent])
              \<and> t_status tx = ''pending'' \<and> t_txHash tx = JStr H \<and> H \<noteq> []
              \<and> transactions (srv_store b') = transactions (srv_store b) @ [tx])
        \<and> (\<forall>e b'. recordTip b (tip_data ws cr amt H) = (Inl e, b') \<longrightarrow>
              ?h = (m\<lparr>m_error := Some (Caught e), m_txHash := Some H, m_isLoading := False\<rparr>,
                    ensure_signer env st, b', tr @ [StorePost (tip_data ws cr amt H)]))
        \<and> (\<exists>sg tx. api_signer (ensure_signer env st) = Some sg
              \<and> sg_sendTransaction sg tx = Inr H \<and> tx_to tx = c_address cr
              \<and> tr \<noteq> [] \<and> last tr = SignerSendTransaction tx)"
      by blast
  qed
  have p2: "?v = None \<and> ?s = (Inl failure, tr) \<longrightarrow>
        ?h = (m\<lparr>m_error := Some (Caught failure), m_isLoading := False\<rparr>, ensure_signer env st, b, tr)"
    by (simp add: handleSendTip_def)
  have p3: "?v = Some refusal \<longrightarrow> ?h = (m\<lparr>m_error := Some refusal\<rparr>, st, b, [])"
    by (simp add: handleSendTip_def)
  have p4: "\<forall>ev\<in>set (events_of ?h).
         \<forall>d. ev = StorePost d \<longrightarrow>
           (\<exists>H tr. ?s = (Inr H, tr) \<and> d = tip_data ws cr amt H \<and> b_txHash d = JStr H)"
    using sendTip_no_store_post [of _ env st "c_address cr" amt]
    by (cases ?s)
       (auto simp: handleSendTip_def events_of_def tip_data_def
          split: option.splits prod.splits sum.splits)
  have p5: "transactions (srv_store (backend_of ?h)) = transactions (srv_store b)
       \<or> (\<exists>H tr tx. ?s = (Inr H, tr) \<and> H \<noteq> []
             \<and> transactions (srv_store (backend_of ?h)) = transactions (srv_store b) @ [tx]
             \<and> t_txHash tx = JStr H \<and> t_status tx = ''pending'')"
  proof (cases ?v)
    case (Some ue)
    then show ?thesis by (simp add: handleSendTip_def backend_of_def)
  next
    case None
    show ?thesis
    proof (cases ?s)
      case (Pair r tr')
      show ?thesis
      proof (cases r)
        case (Inl e)
        with None Pair show ?thesis by (simp add: handleSendTip_def backend_of_def)
      next
        case (Inr H')
        with None Pair have bk: "backend_of ?h = snd (recordTip b (tip_data ws cr amt H'))"
          by (simp add: handleSendTip_def backend_of_def split: prod.splits sum.splits)
        have hh: "b_txHash (tip_data ws cr amt H') = JStr H'" by (simp add: tip_data_def)
        from recordTip_store [of b "tip_data ws cr amt H'"] show ?thesis
          using Pair Inr by (auto simp: bk hh)
      qed
    qed
  qed
  have p6: "recordTip b posted = (Inr stored, after) \<longrightarrow>
         t_status stored = ''pending'' \<and> t_txHash stored = b_txHash posted
         \<and> b_txHash posted \<noteq> JUndefined \<and> b_txHash posted \<noteq> JNull \<and> b_txHash posted \<noteq> JStr []
         \<and> transactions (srv_store after) = transactions (srv_store b) @ [stored]"
    using recordTip_created [of b posted stored after] truthy_hash [of "b_txHash posted"]
    by blast
  have p7: "b_txHash body = JUndefined \<or> b_txHash body = JNull \<or> b_txHash body = JStr [] \<longrightarrow>
         post_tips unicode_lower add_tips now_ms now_iso s body =
           (s, BadRequest ''Missing required fields'')"
    using post_tips_rejects [of body unicode_lower add_tips now_ms now_iso s] by blast
  have p8: "transactions (fst (post_tips unicode_lower add_tips now_ms now_iso s body)) \<noteq> transactions s \<longrightarrow>
         b_txHash body \<noteq> JUndefined \<and> b_txHash body \<noteq> JNull \<and> b_txHash body \<noteq> JStr []
         \<and> (\<exists>tx. transactions (fst (post_tips unicode_lower add_tips now_ms now_iso s body)) =
                    transactions s @ [tx]
                  \<and> snd (post_tips unicode_lower add_tips now_ms now_iso s body) = Created tx
                  \<and> t_status tx = ''pending'' \<and> t_txHash tx = b_txHash body)"
    using post_tips_new_record [of unicode_lower add_tips now_ms now_iso s body]
      truthy_hash [of "b_txHash body"]
    by blast
  from p1 p2 p3 p4 p5 p6 p7 p8 show ?thesis by blast
qed

lemma toString16_half: "toString16 500000000000000000 = ''6f05b59d3b20000''"
  by (simp add: toString16_def radix_string.simps digit_char_def)

lemma sendTip_half:
  "ShardeumAPI_sendTip good_env fresh_api ''0x26d6a3805cbae5d5a510443a15129bec456cacff'' ''0.5'' =
     (Inr sample_hash,
      [GetSigner, ProviderRequest chainId_request, SignerGetAddress,
       HttpPost (rpc_request rpcUrl ''eth_gasPrice'' None),
       HttpPost (rpc_request rpcUrl ''eth_estimateGas''
         (Some [JObj [(''from'', JStr sample_account),
                      (''to'', JStr ''0x26d6a3805cbae5d5a510443a15129bec456cacff''),
                      (''value'', JStr ''0x6f05b59d3b20000''), (''gasPrice'', JStr ''0x3b9aca00'')],
                JStr ''latest''])),
       SignerSendTransaction
         \<lparr>tx_to = ''0x26d6a3805cbae5d5a510443a15129bec456cacff'', tx_value = 500000000000000000,
          tx_gasPrice = JStr ''0x3b9aca00'', tx_gasLimit = JStr ''0x5208''\<rparr>])"
  by (simp add: ShardeumAPI_sendTip_def ShardeumAPI_sendTransaction_def good_env_def
      fresh_api_def good_signer_def good_chain call_def pure_call_def parseEther_half
      toString16_half getGasPrice_def estimateGas_def post_for_result_def good_transport_def
      rpc_request_def)

lemma bob_address: "c_address bob = ''0x26d6a3805cbae5d5a510443a15129bec456cacff''"
  by (simp add: bob_def initial_store_def)

lemma validate_half:
  "validateForm sample_parseFloat (ShardeumAPI_isValidAddress (env_isAddress good_env)) ''0.5''
     sample_wallet bob = None"
  by (simp add: validateForm_def js_le_def js_gt_def sample_parseFloat_def sample_wallet_def
      bob_address ShardeumAPI_isValidAddress_def good_env_def canonical_address_def
      is_hex_digit_def)

lemma toLowerCase_sample:
  "toLowerCase f ''0x26d6a3805cbae5d5a510443a15129bec456cacff'' =
     ''0x26d6a3805cbae5d5a510443a15129bec456cacff''"
  "toLowerCase f sample_account = sample_account"
  by (simp_all add: toLowerCase_def is_ascii_def lower_char_def sample_account_def)

lemma sample_nonempty: "sample_account \<noteq> []" "sample_hash \<noteq> []"
  by (simp_all add: sample_account_def sample_hash_def)

lemma recordTip_half:
  "recordTip sample_backend (tip_data sample_wallet bob ''0.5'' sample_hash) =
     (Inr \<lparr>t_id = ''1730631600000'', t_fromAddress = sample_account,
           t_toAddress = ''0x26d6a3805cbae5d5a510443a15129bec456cacff'',
           t_amount = JStr ''0.5'', t_txHash = JStr sample_hash, t_creatorId = JStr ''2'',
           t_timestamp = ''2024-11-03T11:00:00.000Z'', t_status = ''pending''\<rparr>,
      sample_backend
        \<lparr>srv_store :=
           \<lparr>creators = [hd (creators initial_store), bob\<lparr>totalTips := ''0.5'', tipCount := 1\<rparr>],
            transactions =
              [\<lparr>t_id = ''1730631600000'', t_fromAddress = sample_account,
                t_toAddress = ''0x26d6a3805cbae5d5a510443a15129bec456cacff'',
                t_amount = JStr ''0.5'', t_txHash = JStr sample_hash, t_creatorId = JStr ''2'',
                t_timestamp = ''2024-11-03T11:00:00.000Z'', t_status = ''pending''\<rparr>]\<rparr>\<rparr>)"
  by (simp add: recordTip_def sample_backend_def post_tips_def tip_data_def sample_wallet_def
      sample_nonempty bob_def initial_store_def Let_def new_transaction_def toLowerCase_sample
      update_stats_def round53_1)

theorem tip_recorded_with_submitted_hash_witness:
  "handleSendTip sample_parseFloat good_env fresh_api sample_backend sample_wallet bob ''0.5''
     idle_modal =
     (idle_modal\<lparr>m_error := None, m_txHash := Some sample_hash, m_isLoading := False\<rparr>,
      ensure_signer good_env fresh_api,
      sample_backend
        \<lparr>srv_store :=
           \<lparr>creators = [hd (creators initial_store), bob\<lparr>totalTips := ''0.5'', tipCount := 1\<rparr>],
            transactions =
              [\<lparr>t_id = ''1730631600000'', t_fromAddress = sample_account,
                t_toAddress = ''0x26d6a3805cbae5d5a510443a15129bec456cacff'',
                t_amount = JStr ''0.5'', t_txHash = JStr sample_hash, t_creatorId = JStr ''2'',
                t_timestamp = ''2024-11-03T11:00:00.000Z'', t_status = ''pending''\<rparr>]\<rparr>\<rparr>,
      snd (ShardeumAPI_sendTip good_env fresh_api (c_address bob) ''0.5'')
        @ [StorePost (tip_data sample_wallet bob ''0.5'' sample_hash), OnTipSent])
   \<and> last (snd (ShardeumAPI_sendTip good_env fresh_api (c_address bob) ''0.5'')) =
       SignerSendTransaction
         \<lparr>tx_to = ''0x26d6a3805cbae5d5a510443a15129bec456cacff'', tx_value = 500000000000000000,
          tx_gasPrice = JStr ''0x3b9aca00'', tx_gasLimit = JStr ''0x5208''\<rparr>
   \<and> sample_hash \<noteq> []
   \<and> backend_of (handleSendTip sample_parseFloat mainnet_env fresh_api sample_backend sample_wallet
        bob ''0.5'' idle_modal) = sample_backend
   \<and> backend_of (handleSendTip sample_parseFloat good_env fresh_api sample_backend sample_wallet
        bob ''0'' idle_modal) = sample_backend
   \<and> post_tips (\<lambda>s. s) (\<lambda>t a. ''0.5'') ''1730631600000'' ''2024-11-03T11:00:00.000Z'' initial_store
        ((tip_data sample_wallet bob ''0.5'' sample_hash)\<lparr>b_txHash := JStr []\<rparr>) =
       (initial_store, BadRequest ''Missing required fields'')"
proof -
  let ?tr = "snd (ShardeumAPI_sendTip good_env fresh_api (c_address bob) ''0.5'')"
  have s: "ShardeumAPI_sendTip good_env fresh_api (c_address bob) ''0.5'' = (Inr sample_hash, ?tr)"
    by (simp add: bob_address sendTip_half)
  have l: "last ?tr =
       SignerSendTransaction
         \<lparr>tx_to = ''0x26d6a3805cbae5d5a510443a15129bec456cacff'', tx_value = 500000000000000000,
          tx_gasPrice = JStr ''0x3b9aca00'', tx_gasLimit = JStr ''0x5208''\<rparr>"
    by (simp add: bob_address sendTip_half)
  have w: "ShardeumAPI_sendTip mainnet_env fresh_api (c_address bob) ''0.5'' =
             (Inl SwitchBeforeTransactions,
              snd (ShardeumAPI_sendTip mainnet_env fresh_api (c_address bob) ''0.5''))"
    by (simp add: ShardeumAPI_sendTip_def ShardeumAPI_sendTransaction_def mainnet_env_def
        fresh_api_def call_def verifyNetwork_def SHARDEUM_CHAIN_ID_def mainnet_provider_def
        chainId_request_def)
  have vm: "validateForm sample_parseFloat (ShardeumAPI_isValidAddress (env_isAddress mainnet_env))
              ''0.5'' sample_wallet bob = None"
    using validate_half by (simp add: good_env_def mainnet_env_def)
  have vz: "validateForm sample_parseFloat (ShardeumAPI_isValidAddress (env_isAddress good_env))
              ''0'' sample_wallet bob = Some EnterValidAmount"
    by (simp add: validateForm_def js_le_def sample_parseFloat_def)
  from tip_recorded_with_submitted_hash [where parseFloat = sample_parseFloat
        and amt = "''0.5''" and ws = sample_wallet and cr = bob and env = good_env
        and st = fresh_api and b = sample_backend and m = idle_modal and H = sample_hash
        and tr = ?tr, THEN conjunct1] validate_half s
  have run: "\<forall>tx b'. recordTip sample_backend (tip_data sample_wallet bob ''0.5'' sample_hash) =
                        (Inr tx, b') \<longrightarrow>
              handleSendTip sample_parseFloat good_env fresh_api sample_backend sample_wallet bob
                ''0.5'' idle_modal =
                (idle_modal\<lparr>m_error := None, m_txHash := Some sample_hash, m_isLoading := False\<rparr>,
                 ensure_signer good_env fresh_api, b',
                 ?tr @ [StorePost (tip_data sample_wallet bob ''0.5'' sample_hash), OnTipSent])
              \<and> t_status tx = ''pending'' \<and> t_txHash tx = JStr sample_hash \<and> sample_hash \<noteq> []
              \<and> transactions (srv_store b') = transactions (srv_store sample_backend) @ [tx]"
    by blast
  from run recordTip_half have
    ran: "handleSendTip sample_parseFloat good_env fresh_api sample_backend sample_wallet bob
       ''0.5'' idle_modal =
     (idle_modal\<lparr>m_error := None, m_txHash := Some sample_hash, m_isLoading := False\<rparr>,
      ensure_signer good_env fresh_api,
      sample_backend
        \<lparr>srv_store :=
           \<lparr>creators = [hd (creators initial_store), bob\<lparr>totalTips := ''0.5'', tipCount := 1\<rparr>],
            transactions =
              [\<lparr>t_id = ''1730631600000'', t_fromAddress = sample_account,
                t_toAddress = ''0x26d6a3805cbae5d5a510443a15129bec456cacff'',
                t_amount = JStr ''0.5'', t_txHash = JStr sample_hash, t_creatorId = JStr ''2'',
                t_timestamp = ''2024-11-03T11:00:00.000Z'', t_status = ''pending''\<rparr>]\<rparr>\<rparr>,
      ?tr @ [StorePost (tip_data sample_wallet bob ''0.5'' sample_hash), OnTipSent])"
    and ne: "sample_hash \<noteq> []"
    by blast+
  from tip_recorded_with_submitted_hash [where parseFloat = sample_parseFloat
        and amt = "''0.5''" and ws = sample_wallet and cr = bob and env = mainnet_env
        and st = fresh_api and b = sample_backend and m = idle_modal
        and failure = SwitchBeforeTransactions
        and tr = "snd (ShardeumAPI_sendTip mainnet_env fresh_api (c_address bob) ''0.5'')",
        THEN conjunct2, THEN conjunct1] vm w
  have "handleSendTip sample_parseFloat mainnet_env fresh_api sample_backend sample_wallet bob
          ''0.5'' idle_modal =
        (idle_modal\<lparr>m_error := Some (Caught SwitchBeforeTransactions), m_isLoading := False\<rparr>,
         ensure_signer mainnet_env fresh_api, sample_backend,
         snd (ShardeumAPI_sendTip mainnet_env fresh_api (c_address bob) ''0.5''))"
    by blast
  then have wrong: "backend_of (handleSendTip sample_parseFloat mainnet_env fresh_api
        sample_backend sample_wallet bob ''0.5'' idle_modal) = sample_backend"
    by (simp add: backend_of_def)
  from tip_recorded_with_submitted_hash [where parseFloat = sample_parseFloat
        and amt = "''0''" and ws = sample_wallet and cr = bob and env = good_env
        and st = fresh_api and b = sample_backend and m = idle_modal
        and refusal = EnterValidAmount,
        THEN conjunct2, THEN conjunct2, THEN conjunct1] vz
  have "handleSendTip sample_parseFloat good_env fresh_api sample_backend sample_wallet bob
          ''0'' idle_modal =
        (idle_modal\<lparr>m_error := Some EnterValidAmount\<rparr>, fresh_api, sample_backend, [])"
    by blast
  then have zero: "backend_of (handleSendTip sample_parseFloat good_env fresh_api
        sample_backend sample_wallet bob ''0'' idle_modal) = sample_backend"
    by (simp add: backend_of_def)
  have "b_txHash ((tip_data sample_wallet bob ''0.5'' sample_hash)\<lparr>b_txHash := JStr []\<rparr>) = JStr []"
    by simp
  with tip_recorded_with_submitted_hash [where unicode_lower = "\<lambda>s. s"
        and add_tips = "\<lambda>t a. ''0.5''" and now_ms = "''1730631600000''"
        and now_iso = "''2024-11-03T11:00:00.000Z''" and s = initial_store
        and body = "(tip_data sample_wallet bob ''0.5'' sample_hash)\<lparr>b_txHash := JStr []\<rparr>",
        THEN conjunct2, THEN conjunct2, THEN conjunct2, THEN conjunct2, THEN conjunct2,
        THEN conjunct2, THEN conjunct1]
  have rej: "post_tips (\<lambda>s. s) (\<lambda>t a. ''0.5'') ''1730631600000'' ''2024-11-03T11:00:00.000Z''
        initial_store
        ((tip_data sample_wallet bob ''0.5'' sample_hash)\<lparr>b_txHash := JStr []\<rparr>) =
       (initial_store, BadRequest ''Missing required fields'')"
    by blast
  from ran l ne wrong zero rej show ?thesis by blast
qed

section \<open>Numeric chain values as numbers\<close>

lemma bits_0: "bits 0 = 0"
  by (simp add: bits.simps [of 0])

lemma bits_Suc: "0 < n \<Longrightarrow> bits n = Suc (bits (n div 2))"
  by (simp add: bits.simps [of n])

lemma bits_bounds: "0 < n \<Longrightarrow> 2 ^ (bits n - 1) \<le> n \<and> n < 2 ^ bits n"
proof (induction n rule: less_induct)
  case (less n)
  show ?case
  proof (cases "n = 1")
    case True
    then show ?thesis by (simp add: bits_Suc bits_0)
  next
    case False
    with less.prems have h: "0 < n div 2" "n div 2 < n" by auto
    from less.IH [OF h(2) h(1)]
    have lo: "2 ^ (bits (n div 2) - 1) \<le> n div 2" and hi: "n div 2 < 2 ^ bits (n div 2)"
      by simp_all
    have pos: "0 < bits (n div 2)" using h(1) by (simp add: bits_Suc)
    then have p: "(2::nat) ^ bits (n div 2) = 2 * 2 ^ (bits (n div 2) - 1)"
      by (cases "bits (n div 2)") simp_all
    have b: "bits n = Suc (bits (n div 2))" using less.prems by (rule bits_Suc)
    have "2 ^ (bits n - 1) \<le> n" using lo p b by simp
    moreover have "n < 2 ^ bits n" using hi b by simp
    ultimately show ?thesis by simp
  qed
qed

lemma mantissa_range:
  assumes "53 < bits n"
  shows "2 ^ 52 \<le> n div 2 ^ (bits n - 53) \<and> n div 2 ^ (bits n - 53) < 2 ^ 53"
proof -
  define e where "e = bits n - 53"
  have b: "bits n = e + 53" using assms by (simp add: e_def)
  have "0 < n" using assms by (cases "n = 0") (simp_all add: bits_0)
  from bits_bounds [OF this] have "2 ^ (bits n - 1) \<le> n" and "n < 2 ^ bits n"
    by simp_all
  moreover have "bits n - 1 = e + 52" using b by simp
  ultimately have lo: "2 ^ (e + 52) \<le> n" and hi: "n < 2 ^ (e + 53)"
    by (simp_all only: b)
  have "n < 2 ^ 53 * 2 ^ e" using hi by (simp add: power_add mult.commute)
  then have 1: "n div 2 ^ e < 2 ^ 53" by (simp add: less_mult_imp_div_less)
  have "(2 ^ 52 * 2 ^ e) div 2 ^ e \<le> n div 2 ^ e"
    using lo by (intro div_le_mono) (simp add: power_add mult.commute)
  then have 2: "2 ^ 52 \<le> n div 2 ^ e" by simp
  from 1 2 show ?thesis by (simp add: e_def)
qed

lemma no_double_between:
  assumes q: "(2::nat) ^ 52 \<le> q" and m: "m < (2::nat) ^ 53"
  shows "m * 2 ^ k \<le> q * 2 ^ e \<or> (q + 1) * 2 ^ e \<le> m * 2 ^ k"
proof (cases "e \<le> k")
  case True
  then have k: "k = (k - e) + e" by simp
  have eq: "m * 2 ^ k = (m * 2 ^ (k - e)) * 2 ^ e"
    by (subst k) (simp add: power_add)
  show ?thesis
  proof (cases "m * 2 ^ (k - e) \<le> q")
    case True
    then have "(m * 2 ^ (k - e)) * 2 ^ e \<le> q * 2 ^ e" by (rule mult_le_mono1)
    then show ?thesis by (simp only: eq) simp
  next
    case False
    then have "q + 1 \<le> m * 2 ^ (k - e)" by simp
    then have "(q + 1) * 2 ^ e \<le> (m * 2 ^ (k - e)) * 2 ^ e" by (rule mult_le_mono1)
    then show ?thesis by (simp only: eq) simp
  qed
next
  case False
  then have e: "e = Suc (e - k - 1) + k" by simp
  have eq: "q * 2 ^ e = (q * 2 ^ Suc (e - k - 1)) * 2 ^ k"
    by (subst e) (simp add: power_add)
  have "m \<le> q * 2" using q m by simp
  also have "q * 2 \<le> q * 2 ^ Suc (e - k - 1)" by simp
  finally have "m * 2 ^ k \<le> (q * 2 ^ Suc (e - k - 1)) * 2 ^ k" by (rule mult_le_mono1)
  then show ?thesis by (simp only: eq) simp
qed

lemma round53_small: "bits n \<le> 53 \<Longrightarrow> round53 n = n"
  by (simp add: round53_def)

lemma bits_small: "bits n \<le> 53 \<Longrightarrow> n < 2 ^ 53"
proof (cases "n = 0")
  case True
  then show ?thesis by simp
next
  case False
  assume a: "bits n \<le> 53"
  from False have "n < 2 ^ bits n" using bits_bounds [of n] by simp
  also have "(2::nat) ^ bits n \<le> 2 ^ 53" using a by (rule power_increasing) simp
  finally show ?thesis .
qed

lemma round53_cases:
  assumes "53 < bits n"
  shows "\<exists>e q r. e = bits n - 53 \<and> 0 < e \<and> n = q * 2 ^ e + r \<and> r < 2 ^ e
            \<and> 2 ^ 52 \<le> q \<and> q < 2 ^ 53 \<and> q = n div 2 ^ e \<and> r = n mod 2 ^ e
            \<and> (if 2 ^ e < 2 * r \<or> (2 * r = 2 ^ e \<and> odd q)
                then round53 n = (q + 1) * 2 ^ e else round53 n = q * 2 ^ e)"
proof -
  define e where "e = bits n - 53"
  define q where "q = n div 2 ^ e"
  define r where "r = n mod 2 ^ e"
  have e: "0 < e" using assms by (simp add: e_def)
  then have half: "(2::nat) ^ e = 2 * 2 ^ (e - 1)" by (cases e) simp_all
  have n: "n = q * 2 ^ e + r" unfolding q_def r_def by (rule div_mult_mod_eq [symmetric])
  have r: "r < 2 ^ e" by (simp add: r_def)
  have qr: "2 ^ 52 \<le> q \<and> q < 2 ^ 53"
    using mantissa_range [OF assms] by (simp add: q_def e_def)
  have c: "(2 ^ (e - 1) < r \<or> (r = 2 ^ (e - 1) \<and> odd q))
             = (2 ^ e < 2 * r \<or> (2 * r = 2 ^ e \<and> odd q))"
    by (simp add: half)
  have "round53 n = (if 2 ^ (e - 1) < r \<or> (r = 2 ^ (e - 1) \<and> odd q) then q + 1 else q) * 2 ^ e"
    using assms by (simp add: round53_def Let_def e_def q_def r_def)
  then have "if 2 ^ e < 2 * r \<or> (2 * r = 2 ^ e \<and> odd q)
                then round53 n = (q + 1) * 2 ^ e else round53 n = q * 2 ^ e"
    unfolding c by auto
  note d = this
  have "e = bits n - 53" by (rule e_def)
  moreover have "q = n div 2 ^ e" by (rule q_def)
  moreover have "r = n mod 2 ^ e" by (rule r_def)
  ultimately show ?thesis using e n r qr d by blast
qed

lemma round53_double: "\<exists>m k. m < 2 ^ 53 \<and> round53 n = m * 2 ^ k"
proof (cases "bits n \<le> 53")
  case True
  have "n < 2 ^ 53" using True by (rule bits_small)
  moreover have "round53 n = n * 2 ^ 0" using True by (simp add: round53_small)
  ultimately show ?thesis by blast
next
  case False
  then have "53 < bits n" by simp
  from round53_cases [OF this] obtain e q and r :: nat where
    q: "q < 2 ^ 53" "2 ^ 52 \<le> q"
    and d: "if 2 ^ e < 2 * r \<or> (2 * r = 2 ^ e \<and> odd q)
              then round53 n = (q + 1) * 2 ^ e else round53 n = q * 2 ^ e"
    by blast
  show ?thesis
  proof (cases "round53 n = q * 2 ^ e")
    case True
    with q show ?thesis by blast
  next
    case False
    with d have up: "round53 n = (q + 1) * 2 ^ e" by (simp split: if_splits)
    show ?thesis
    proof (cases "q + 1 < 2 ^ 53")
      case True
      with up show ?thesis by blast
    next
      case False
      with q have "q + 1 = 2 ^ 52 * 2" by simp
      then have "round53 n = 2 ^ 52 * 2 ^ Suc e" using up by simp
      moreover have "(2::nat) ^ 52 < 2 ^ 53" by simp
      ultimately show ?thesis by blast
    qed
  qed
qed

lemma round53_nearest:
  assumes m: "m < 2 ^ 53"
  shows "\<bar>int n - int (round53 n)\<bar> \<le> \<bar>int n - int (m * 2 ^ k)\<bar>"
proof (cases "bits n \<le> 53")
  case True
  then show ?thesis by (simp add: round53_small)
next
  case False
  then have "53 < bits n" by simp
  from round53_cases [OF this] obtain e q r where
    n: "n = q * 2 ^ e + r" and r: "r < 2 ^ e" and q: "2 ^ 52 \<le> q"
    and d: "if 2 ^ e < 2 * r \<or> (2 * r = 2 ^ e \<and> odd q)
              then round53 n = (q + 1) * 2 ^ e else round53 n = q * 2 ^ e"
    by blast
  define x where "x = m * 2 ^ k"
  define lo where "lo = q * 2 ^ e"
  define p where "p = (2::nat) ^ e"
  have hi: "(q + 1) * 2 ^ e = lo + p" by (simp add: lo_def p_def)
  from no_double_between [OF q m, of k e] have x: "x \<le> lo \<or> lo + p \<le> x"
    by (simp only: x_def lo_def hi)
  have n': "n = lo + r" using n by (simp add: lo_def)
  have r': "r < p" using r by (simp add: p_def)
  from d have d': "(p < 2 * r \<and> round53 n = lo + p) \<or> (2 * r = p \<and> round53 n = lo + p)
                   \<or> (2 * r \<le> p \<and> round53 n = lo)"
    unfolding hi [symmetric] lo_def p_def by (auto split: if_splits)
  show ?thesis
    unfolding x_def [symmetric] using x n' r' d' by auto
qed

lemma round53_even:
  assumes "53 < bits n" and "2 * (n mod 2 ^ (bits n - 53)) = 2 ^ (bits n - 53)"
  shows "even (round53 n div 2 ^ (bits n - 53))"
proof -
  from round53_cases [OF assms(1)] obtain e q r where
    e: "e = bits n - 53" and r: "r = n mod 2 ^ e"
    and d: "if 2 ^ e < 2 * r \<or> (2 * r = 2 ^ e \<and> odd q)
              then round53 n = (q + 1) * 2 ^ e else round53 n = q * 2 ^ e"
    by blast
  from assms(2) have t: "2 * r = 2 ^ e" by (simp add: e r)
  show ?thesis
  proof (cases "odd q")
    case True
    with d t have "round53 n = (q + 1) * 2 ^ e" by simp
    then have "round53 n div 2 ^ e = q + 1" by simp
    with True show ?thesis by (simp add: e)
  next
    case False
    with d t have "round53 n = q * 2 ^ e" by simp
    then have "round53 n div 2 ^ e = q" by simp
    with False show ?thesis by (simp add: e)
  qed
qed

lemma bits_le: "n < 2 ^ k \<Longrightarrow> bits n \<le> k"
proof (induction k arbitrary: n)
  case 0
  then show ?case by (simp add: bits_0)
next
  case (Suc k)
  show ?case
  proof (cases "n = 0")
    case True
    then show ?thesis by (simp add: bits_0)
  next
    case False
    have "n div 2 < 2 ^ k" using Suc.prems by simp
    then have "bits (n div 2) \<le> k" by (rule Suc.IH)
    then show ?thesis using False by (simp add: bits.simps [of n])
  qed
qed

lemma bits_2_53: "bits 9007199254740992 = 54"
  by (simp add: bits.simps)

lemma round53_exact: "n \<le> 2 ^ 53 \<Longrightarrow> round53 n = n"
proof (cases "n < 2 ^ 53")
  case True
  then have "bits n \<le> 53" by (rule bits_le)
  then show ?thesis by (simp add: round53_def)
next
  case False
  assume "n \<le> 2 ^ 53"
  with False have "n = 9007199254740992" by simp
  then show ?thesis by (simp add: round53_def bits_2_53 Let_def)
qed

lemma to_number_exact: "n \<le> 2 ^ 53 \<Longrightarrow> to_number (int n) = Fin (of_nat n)"
proof -
  assume a: "n \<le> 2 ^ 53"
  have "(2::nat) ^ 53 < 2 ^ 1024" by (rule power_strict_increasing) simp_all
  with a have "\<not> 2 ^ 1024 \<le> n" by linarith
  with a show ?thesis by (simp add: to_number_def round53_exact Let_def)
qed

lemma to_number_nat:
  "to_number (int n) = (if round53 n < 2 ^ 1024 then Fin (of_nat (round53 n)) else PosInf)"
  by (simp add: to_number_def Let_def not_le)

lemma to_number_minus:
  "to_number (- int n) =
     (case to_number (int n) of Fin x \<Rightarrow> Fin (- x) | PosInf \<Rightarrow> NegInf | other \<Rightarrow> other)"
proof (cases "n = 0")
  case True
  then show ?thesis by (simp add: to_number_def round53_def bits_0)
next
  case False
  then show ?thesis by (simp add: to_number_def Let_def)
qed

lemma space_length_zero: "space_length (CHR ''0'' # s) = 0"
  by (simp add: space_length_def numeral_3_eq_3)

lemma skip_space_zero: "skip_space (CHR ''0'' # s) = CHR ''0'' # s"
  by (simp add: skip_space.simps [of "CHR ''0'' # s"] space_length_zero)

lemma parseInt16_quantity:
  assumes "hex_quantity s = Some v"
  shows "parseInt16 s = to_number (int v)"
proof -
  from assms have p: "take 2 s = ''0x''" and ne: "drop 2 s \<noteq> []"
    and hx: "list_all is_hex_digit (drop 2 s)" and v: "v = radix_value 16 (drop 2 s)"
    by (auto simp: hex_quantity_def split: if_splits)
  have "s = take 2 s @ drop 2 s" by simp
  with p have s: "s = CHR ''0'' # CHR ''x'' # drop 2 s" by simp
  have tw: "takeWhile is_hex_digit (drop 2 s) = drop 2 s"
    using hx by (simp add: takeWhile_eq_all_conv list_all_iff)
  have "parseInt16 (CHR ''0'' # CHR ''x'' # drop 2 s) = to_number (int v)"
    using ne v by (simp add: parseInt16_def Let_def skip_space_zero tw)
  with s show ?thesis by simp
qed

lemma shardeumRPC_pair:
  "shardeumRPC t m None =
     (fst (shardeumRPC t m None), [HttpPost (rpc_request SHARDEUM_RPC m (Some []))])"
  "shardeumRPC t m (Some ps) =
     (fst (shardeumRPC t m (Some ps)), [HttpPost (rpc_request SHARDEUM_RPC m (Some ps))])"
  by (simp_all add: shardeumRPC_def prod_eq_iff post_for_result_trace)

lemma get_network_ok:
  assumes "fst (shardeumRPC axios_post ''eth_chainId'' None) = Inr c"
    and "fst (shardeumRPC axios_post ''eth_blockNumber'' None) = Inr bn"
    and "fst (shardeumRPC axios_post ''eth_gasPrice'' None) = Inr g"
  shows "get_network toStr axios_post =
           (Inr \<lparr>ni_chainId = c, ni_blockNumber = parseInt_value toStr bn,
                 ni_gasPrice = parseInt_value toStr g\<rparr>,
            [HttpPost (rpc_request SHARDEUM_RPC ''eth_chainId'' (Some [])),
             HttpPost (rpc_request SHARDEUM_RPC ''eth_blockNumber'' (Some [])),
             HttpPost (rpc_request SHARDEUM_RPC ''eth_gasPrice'' (Some []))])"
proof -
  have 1: "shardeumRPC axios_post ''eth_chainId'' None =
             (Inr c, [HttpPost (rpc_request SHARDEUM_RPC ''eth_chainId'' (Some []))])"
    using shardeumRPC_pair(1) [of axios_post "''eth_chainId''"] assms(1) by simp
  have 2: "shardeumRPC axios_post ''eth_blockNumber'' None =
             (Inr bn, [HttpPost (rpc_request SHARDEUM_RPC ''eth_blockNumber'' (Some []))])"
    using shardeumRPC_pair(1) [of axios_post "''eth_blockNumber''"] assms(2) by simp
  have 3: "shardeumRPC axios_post ''eth_gasPrice'' None =
             (Inr g, [HttpPost (rpc_request SHARDEUM_RPC ''eth_gasPrice'' (Some []))])"
    using shardeumRPC_pair(1) [of axios_post "''eth_gasPrice''"] assms(3) by simp
  show ?thesis by (simp add: get_network_def 1 2 3)
qed

lemma get_network_fails:
  assumes "fst (shardeumRPC axios_post ''eth_chainId'' None) = Inl failed_chain
           \<or> fst (shardeumRPC axios_post ''eth_blockNumber'' None) = Inl failed_block
           \<or> fst (shardeumRPC axios_post ''eth_gasPrice'' None) = Inl failed_price"
  shows "fst (get_network toStr axios_post) = Inl ''Failed to fetch network info''"
proof -
  obtain r1 t1 where 1: "shardeumRPC axios_post ''eth_chainId'' None = (r1, t1)"
    by (cases "shardeumRPC axios_post ''eth_chainId'' None")
  obtain r2 t2 where 2: "shardeumRPC axios_post ''eth_blockNumber'' None = (r2, t2)"
    by (cases "shardeumRPC axios_post ''eth_blockNumber'' None")
  obtain r3 t3 where 3: "shardeumRPC axios_post ''eth_gasPrice'' None = (r3, t3)"
    by (cases "shardeumRPC axios_post ''eth_gasPrice'' None")
  show ?thesis
    using assms by (cases r1; cases r2; cases r3) (simp_all add: get_network_def 1 2 3)
qed

lemma get_nonce_cases:
  "(fst (shardeumRPC axios_post ''eth_getTransactionCount'' (Some [JStr a, JStr ''latest''])) = Inr x \<longrightarrow>
      get_nonce toStr axios_post a =
        (Inr (a, parseInt_value toStr x),
         [HttpPost (rpc_request SHARDEUM_RPC ''eth_getTransactionCount''
            (Some [JStr a, JStr ''latest'']))]))
   \<and> (fst (shardeumRPC axios_post ''eth_getTransactionCount'' (Some [JStr a, JStr ''latest''])) = Inl e \<longrightarrow>
      fst (get_nonce toStr axios_post a) = Inl ''Failed to fetch nonce'')"
  using shardeumRPC_pair(2) [of axios_post "''eth_getTransactionCount''" "[JStr a, JStr ''latest'']"]
  by (cases "shardeumRPC axios_post ''eth_getTransactionCount'' (Some [JStr a, JStr ''latest''])")
     (auto simp: get_nonce_def split: sum.splits)

lemma get_balance_cases:
  "(fst (shardeumRPC axios_post ''eth_getBalance'' (Some [JStr a, JStr ''latest''])) = Inr wei
      \<and> fromWei wei = Inr shm \<longrightarrow>
      get_balance fromWei axios_post a =
        (Inr (a, shm, wei),
         [HttpPost (rpc_request SHARDEUM_RPC ''eth_getBalance'' (Some [JStr a, JStr ''latest'']))]))
   \<and> (fst (shardeumRPC axios_post ''eth_getBalance'' (Some [JStr a, JStr ''latest''])) = Inl e
       \<or> (fst (shardeumRPC axios_post ''eth_getBalance'' (Some [JStr a, JStr ''latest''])) = Inr wei
           \<and> fromWei wei = Inl t) \<longrightarrow>
      fst (get_balance fromWei axios_post a) = Inl ''Failed to fetch balance'')"
  using shardeumRPC_pair(2) [of axios_post "''eth_getBalance''" "[JStr a, JStr ''latest'']"]
  by (cases "shardeumRPC axios_post ''eth_getBalance'' (Some [JStr a, JStr ''latest''])")
     (auto simp: get_balance_def split: sum.splits)

lemma getNetworkInfo_cases:
  "Web3Service_getNetworkInfo toNum None = (Inl Web3NotInitialized, [])
   \<and> (w3_getChainId lib = Inr c \<and> w3_getBlockNumber lib = Inr bn \<and> w3_getGasPrice lib = Inr g \<longrightarrow>
        Web3Service_getNetworkInfo toNum (Some lib) =
          (Inr \<lparr>ni_chainId = JStr (''0x'' @ toString16 c), ni_blockNumber = to_number bn,
                ni_gasPrice = Number_value toNum g\<rparr>,
           [Web3GetChainId, Web3GetBlockNumber, Web3GetGasPrice]))
   \<and> (w3_getChainId lib = Inl t \<longrightarrow>
        Web3Service_getNetworkInfo toNum (Some lib) =
          (Inl (FailedToGetNetworkInfo (err_message t)), [Web3GetChainId]))
   \<and> (w3_getChainId lib = Inr c \<and> w3_getBlockNumber lib = Inl t \<longrightarrow>
        Web3Service_getNetworkInfo toNum (Some lib) =
          (Inl (FailedToGetNetworkInfo (err_message t)), [Web3GetChainId, Web3GetBlockNumber]))
   \<and> (w3_getChainId lib = Inr c \<and> w3_getBlockNumber lib = Inr bn \<and> w3_getGasPrice lib = Inl t \<longrightarrow>
        Web3Service_getNetworkInfo toNum (Some lib) =
          (Inl (FailedToGetNetworkInfo (err_message t)),
           [Web3GetChainId, Web3GetBlockNumber, Web3GetGasPrice]))"
  by (simp add: Web3Service_getNetworkInfo_def call_def Number_value_def)

lemma hex_quantity_large:
  "hex_quantity ''0x20000000000001'' = Some 9007199254740993"
  "hex_quantity ''0x20000000000003'' = Some 9007199254740995"
  "hex_quantity ''0x40000000000003'' = Some 18014398509481987"
  by (simp_all add: hex_quantity_def is_hex_digit_def radix_value_def digit_val_def)

lemma round53_large:
  "round53 9007199254740993 = 9007199254740992"
  "round53 9007199254740995 = 9007199254740996"
  "round53 18014398509481987 = 18014398509481988"
proof -
  have b: "bits 9007199254740993 = 54" "bits 9007199254740995 = 54" "bits 18014398509481987 = 55"
    by (simp_all add: bits.simps)
  show "round53 9007199254740993 = 9007199254740992"
    by (simp add: round53_def b Let_def)
  show "round53 9007199254740995 = 9007199254740996"
    by (simp add: round53_def b Let_def)
  show "round53 18014398509481987 = 18014398509481988"
    by (simp add: round53_def b Let_def)
qed

lemma to_number_large:
  "to_number 9007199254740993 = Fin 9007199254740992"
  "to_number 9007199254740995 = Fin 9007199254740996"
  "to_number 18014398509481987 = Fin 18014398509481988"
  by (simp_all add: to_number_def round53_large Let_def)

lemma toString16_chain: "toString16 8083 = ''1f93''"
  by (simp add: toString16_def radix_string.simps digit_char_def)

text \<open>
  C9, as the claim states it, fails: the block number, the gas price and the nonce are read
  into native numbers. The quantity \<open>0x20000000000001\<close>, which is \<open>2 ^ 53 + 1\<close>,
  comes out of \<open>GET /api/network\<close> as \<open>2 ^ 53\<close>, and \<open>Web3Service.getNetworkInfo\<close>
  returns \<open>2 ^ 53\<close> for the block number \<open>2 ^ 53 + 1\<close> of the library.
\<close>

theorem large_block_number_is_rounded:
  "hex_quantity ''0x20000000000001'' = Some 9007199254740993
   \<and> fst (get_network (\<lambda>v. []) large_quantity_transport) =
       Inr \<lparr>ni_chainId = JStr ''0x20000000000001'',
            ni_blockNumber = Fin 9007199254740992,
            ni_gasPrice = Fin 9007199254740992\<rparr>
   \<and> w3_getBlockNumber sample_web3 = Inr 9007199254740993
   \<and> Web3Service_getNetworkInfo (\<lambda>v. NaN) (Some sample_web3) =
       (Inr \<lparr>ni_chainId = JStr ''0x1f93'',
             ni_blockNumber = Fin 9007199254740992,
             ni_gasPrice = Fin 1000000000\<rparr>,
        [Web3GetChainId, Web3GetBlockNumber, Web3GetGasPrice])"
proof -
  have p: "parseInt16 ''0x20000000000001'' = Fin 9007199254740992"
    using parseInt16_quantity [OF hex_quantity_large(1)] to_number_large(1) by simp
  have g: "to_number 1000000000 = Fin 1000000000"
    using to_number_exact [of 1000000000] by simp
  have n: "fst (get_network (\<lambda>v. []) large_quantity_transport) =
       Inr \<lparr>ni_chainId = JStr ''0x20000000000001'',
            ni_blockNumber = Fin 9007199254740992,
            ni_gasPrice = Fin 9007199254740992\<rparr>"
    using p
    by (simp add: get_network_def shardeumRPC_def post_for_result_def call_def pure_call_def
        large_quantity_transport_def parseInt_value_def)
  have w: "Web3Service_getNetworkInfo (\<lambda>v. NaN) (Some sample_web3) =
       (Inr \<lparr>ni_chainId = JStr ''0x1f93'',
             ni_blockNumber = Fin 9007199254740992,
             ni_gasPrice = Fin 1000000000\<rparr>,
        [Web3GetChainId, Web3GetBlockNumber, Web3GetGasPrice])"
    using g to_number_large(1)
    by (simp add: Web3Service_getNetworkInfo_def sample_web3_def call_def Number_value_def
        toString16_chain)
  have b: "w3_getBlockNumber sample_web3 = Inr 9007199254740993"
    by (simp add: sample_web3_def)
  from hex_quantity_large(1) n b w show ?thesis by blast
qed

text \<open>
  C9, amended. The server reads the block number, the gas price and the nonce it
  received over RPC with \<open>parseInt(_, 16)\<close>, and \<open>Web3Service.getNetworkInfo\<close> turns
  the library's integers into numbers with \<open>Number\<close>: a \<open>0x\<close>-prefixed hexadecimal
  quantity becomes a double, which is the quantity itself up to \<open>2 ^ 53\<close> and beyond
  that the nearest number with 53 significant bits, the one with the even mantissa when
  two are equally near, and \<open>Infinity\<close> when that number reaches \<open>2 ^ 1024\<close>. The
  balance is not parsed: the server passes the received value to the library's conversion
  and returns it unchanged as \<open>balanceWei\<close>. Each handler answers with these values
  when its RPC calls return, and with its error when one of them fails.
\<close>

theorem chain_quantities_become_doubles:
  "(hex_quantity s = Some v \<longrightarrow> parseInt_value toStr (JStr s) = to_number (int v))
   \<and> (hex_quantity s = Some v \<and> v \<le> 2 ^ 53 \<longrightarrow> parseInt_value toStr (JStr s) = Fin (of_nat v))
   \<and> Number_value toNum (JBig i) = to_number i
   \<and> (0 \<le> i \<and> i \<le> 2 ^ 53 \<longrightarrow> Number_value toNum (JBig i) = Fin (of_int i))
   \<and> (n \<le> 2 ^ 53 \<longrightarrow> to_number (int n) = Fin (of_nat n))
   \<and> (\<exists>d. to_number (int n) = (if d < 2 ^ 1024 then Fin (of_nat d) else PosInf)
          \<and> (\<exists>m k. m < 2 ^ 53 \<and> d = m * 2 ^ k)
          \<and> (\<forall>m k. m < 2 ^ 53 \<longrightarrow> \<bar>int n - int d\<bar> \<le> \<bar>int n - int (m * 2 ^ k)\<bar>)
          \<and> (53 < bits n \<and> 2 * (n mod 2 ^ (bits n - 53)) = 2 ^ (bits n - 53) \<longrightarrow>
               even (d div 2 ^ (bits n - 53))))
   \<and> (0 < n \<longrightarrow> 2 ^ (bits n - 1) \<le> n \<and> n < 2 ^ bits n)
   \<and> to_number (- int n) =
       (case to_number (int n) of Fin x \<Rightarrow> Fin (- x) | PosInf \<Rightarrow> NegInf | other \<Rightarrow> other)
   \<and> (fst (shardeumRPC axios_post ''eth_chainId'' None) = Inr c
       \<and> fst (shardeumRPC axios_post ''eth_blockNumber'' None) = Inr bn
       \<and> fst (shardeumRPC axios_post ''eth_gasPrice'' None) = Inr g \<longrightarrow>
        get_network toStr axios_post =
          (Inr \<lparr>ni_chainId = c, ni_blockNumber = parseInt_value toStr bn,
                ni_gasPrice = parseInt_value toStr g\<rparr>,
           [HttpPost (rpc_request SHARDEUM_RPC ''eth_chainId'' (Some [])),
            HttpPost (rpc_request SHARDEUM_RPC ''eth_blockNumber'' (Some [])),
            HttpPost (rpc_request SHARDEUM_RPC ''eth_gasPrice'' (Some []))]))
   \<and> (fst (shardeumRPC axios_post ''eth_chainId'' None) = Inl failed_chain
       \<or> fst (shardeumRPC axios_post ''eth_blockNumber'' None) = Inl failed_block
       \<or> fst (shardeumRPC axios_post ''eth_gasPrice'' None) = Inl failed_price \<longrightarrow>
        fst (get_network toStr axios_post) = Inl ''Failed to fetch network info'')
   \<and> (fst (shardeumRPC axios_post ''eth_getTransactionCount'' (Some [JStr a, JStr ''latest''])) = Inr x \<longrightarrow>
        get_nonce toStr axios_post a =
          (Inr (a, parseInt_value toStr x),
           [HttpPost (rpc_request SHARDEUM_RPC ''eth_getTransactionCount''
              (Some [JStr a, JStr ''latest'']))]))
   \<and> (fst (shardeumRPC axios_post ''eth_getTransactionCount'' (Some [JStr a, JStr ''latest''])) = Inl failed_nonce \<longrightarrow>
        fst (get_nonce toStr axios_post a) = Inl ''Failed to fetch nonce'')
   \<and> (fst (shardeumRPC axios_post ''eth_getBalance'' (Some [JStr a, JStr ''latest''])) = Inr wei
       \<and> fromWei wei = Inr shm \<longrightarrow>
        get_balance fromWei axios_post a =
          (Inr (a, shm, wei),
           [HttpPost (rpc_request SHARDEUM_RPC ''eth_getBalance'' (Some [JStr a, JStr ''latest'']))]))
   \<and> (fst (shardeumRPC axios_post ''eth_getBalance'' (Some [JStr a, JStr ''latest''])) = Inl failed_balance
       \<or> (fst (shardeumRPC axios_post ''eth_getBalance'' (Some [JStr a, JStr ''latest''])) = Inr wei
           \<and> fromWei wei = Inl failed_conversion) \<longrightarrow>
        fst (get_balance fromWei axios_post a) = Inl ''Failed to fetch balance'')
   \<and> Web3Service_getNetworkInfo toNum None = (Inl Web3NotInitialized, [])
   \<and> (w3_getChainId lib = Inr cid \<and> w3_getBlockNumber lib = Inr block
       \<and> w3_getGasPrice lib = Inr price \<longrightarrow>
        Web3Service_getNetworkInfo toNum (Some lib) =
          (Inr \<lparr>ni_chainId = JStr (''0x'' @ toString16 cid), ni_blockNumber = to_number block,
                ni_gasPrice = Number_value toNum price\<rparr>,
           [Web3GetChainId, Web3GetBlockNumber, Web3GetGasPrice]))
   \<and> (w3_getChainId lib = Inl t \<longrightarrow>
        Web3Service_getNetworkInfo toNum (Some lib) =
          (Inl (FailedToGetNetworkInfo (err_message t)), [Web3GetChainId]))
   \<and> (w3_getChainId lib = Inr cid \<and> w3_getBlockNumber lib = Inl t \<longrightarrow>
        Web3Service_getNetworkInfo toNum (Some lib) =
          (Inl (FailedToGetNetworkInfo (err_message t)), [Web3GetChainId, Web3GetBlockNumber]))
   \<and> (w3_getChainId lib = Inr cid \<and> w3_getBlockNumber lib = Inr block
       \<and> w3_getGasPrice lib = Inl t \<longrightarrow>
        Web3Service_getNetworkInfo toNum (Some lib) =
          (Inl (FailedToGetNetworkInfo (err_message t)),
           [Web3GetChainId, Web3GetBlockNumber, Web3GetGasPrice]))"
proof -
  have c1: "hex_quantity s = Some v \<longrightarrow> parseInt_value toStr (JStr s) = to_number (int v)"
    by (simp add: parseInt_value_def parseInt16_quantity)
  have c2: "hex_quantity s = Some v \<and> v \<le> 2 ^ 53 \<longrightarrow>
              parseInt_value toStr (JStr s) = Fin (of_nat v)"
    by (simp add: parseInt_value_def parseInt16_quantity to_number_exact)
  have c3: "Number_value toNum (JBig i) = to_number i"
    by (simp add: Number_value_def)
  have c4: "0 \<le> i \<and> i \<le> 2 ^ 53 \<longrightarrow> Number_value toNum (JBig i) = Fin (of_int i)"
  proof
    assume a: "0 \<le> i \<and> i \<le> 2 ^ 53"
    then have "nat i \<le> 2 ^ 53" by (simp add: nat_le_iff)
    then have "to_number (int (nat i)) = Fin (of_nat (nat i))" by (rule to_number_exact)
    with a show "Number_value toNum (JBig i) = Fin (of_int i)"
      by (simp add: Number_value_def)
  qed
  have c5: "n \<le> 2 ^ 53 \<longrightarrow> to_number (int n) = Fin (of_nat n)"
    using to_number_exact [of n] by blast
  have c6: "\<exists>d. to_number (int n) = (if d < 2 ^ 1024 then Fin (of_nat d) else PosInf)
          \<and> (\<exists>m k. m < 2 ^ 53 \<and> d = m * 2 ^ k)
          \<and> (\<forall>m k. m < 2 ^ 53 \<longrightarrow> \<bar>int n - int d\<bar> \<le> \<bar>int n - int (m * 2 ^ k)\<bar>)
          \<and> (53 < bits n \<and> 2 * (n mod 2 ^ (bits n - 53)) = 2 ^ (bits n - 53) \<longrightarrow>
               even (d div 2 ^ (bits n - 53)))"
  proof (rule exI [of _ "round53 n"], intro conjI)
    show "to_number (int n) =
            (if round53 n < 2 ^ 1024 then Fin (of_nat (round53 n)) else PosInf)"
      by (rule to_number_nat)
    show "\<exists>m k. m < 2 ^ 53 \<and> round53 n = m * 2 ^ k" by (rule round53_double)
    show "\<forall>m k. m < 2 ^ 53 \<longrightarrow> \<bar>int n - int (round53 n)\<bar> \<le> \<bar>int n - int (m * 2 ^ k)\<bar>"
      using round53_nearest [of _ n] by blast
    show "53 < bits n \<and> 2 * (n mod 2 ^ (bits n - 53)) = 2 ^ (bits n - 53) \<longrightarrow>
            even (round53 n div 2 ^ (bits n - 53))"
      using round53_even [of n] by blast
  qed
  have c7: "0 < n \<longrightarrow> 2 ^ (bits n - 1) \<le> n \<and> n < 2 ^ bits n"
    using bits_bounds [of n] by blast
  note c8 = to_number_minus [of n]
  have c9: "fst (shardeumRPC axios_post ''eth_chainId'' None) = Inr c
       \<and> fst (shardeumRPC axios_post ''eth_blockNumber'' None) = Inr bn
       \<and> fst (shardeumRPC axios_post ''eth_gasPrice'' None) = Inr g \<longrightarrow>
        get_network toStr axios_post =
          (Inr \<lparr>ni_chainId = c, ni_blockNumber = parseInt_value toStr bn,
                ni_gasPrice = parseInt_value toStr g\<rparr>,
           [HttpPost (rpc_request SHARDEUM_RPC ''eth_chainId'' (Some [])),
            HttpPost (rpc_request SHARDEUM_RPC ''eth_blockNumber'' (Some [])),
            HttpPost (rpc_request SHARDEUM_RPC ''eth_gasPrice'' (Some []))])"
    using get_network_ok [of axios_post c bn g toStr] by blast
  have c10: "fst (shardeumRPC axios_post ''eth_chainId'' None) = Inl failed_chain
       \<or> fst (shardeumRPC axios_post ''eth_blockNumber'' None) = Inl failed_block
       \<or> fst (shardeumRPC axios_post ''eth_gasPrice'' None) = Inl failed_price \<longrightarrow>
        fst (get_network toStr axios_post) = Inl ''Failed to fetch network info''"
    using get_network_fails [of axios_post failed_chain failed_block failed_price toStr] by blast
  note c11 = get_nonce_cases [of axios_post a x toStr failed_nonce]
  note c12 = get_balance_cases [of axios_post a wei fromWei shm failed_balance failed_conversion]
  note c13 = getNetworkInfo_cases [of toNum lib cid block price t]
  show ?thesis
    by (intro conjI c1 c2 c3 c4 c5 c6 c7 c8 c9 c10
        c11 [THEN conjunct1] c11 [THEN conjunct2] c12 [THEN conjunct1] c12 [THEN conjunct2]
        c13 [THEN conjunct1] c13 [THEN conjunct2, THEN conjunct1]
        c13 [THEN conjunct2, THEN conjunct2, THEN conjunct1]
        c13 [THEN conjunct2, THEN conjunct2, THEN conjunct2, THEN conjunct1]
        c13 [THEN conjunct2, THEN conjunct2, THEN conjunct2, THEN conjunct2])
qed

theorem chain_quantities_become_doubles_witness:
  "parseInt_value (\<lambda>v. []) (JStr ''0x5208'') = Fin 21000
   \<and> parseInt_value (\<lambda>v. []) (JStr ''0x20000000000003'') = Fin 9007199254740996
   \<and> parseInt_value (\<lambda>v. []) (JStr ''0x40000000000003'') = Fin 18014398509481988
   \<and> Number_value (\<lambda>v. NaN) (JBig 8083) = Fin 8083
   \<and> Number_value (\<lambda>v. NaN) (JBig 9007199254740995) = Fin 9007199254740996
   \<and> get_network (\<lambda>v. []) good_transport =
       (Inr \<lparr>ni_chainId = JStr ''0x5208'', ni_blockNumber = Fin 21000,
             ni_gasPrice = Fin 1000000000\<rparr>,
        [HttpPost (rpc_request SHARDEUM_RPC ''eth_chainId'' (Some [])),
         HttpPost (rpc_request SHARDEUM_RPC ''eth_blockNumber'' (Some [])),
         HttpPost (rpc_request SHARDEUM_RPC ''eth_gasPrice'' (Some []))])
   \<and> fst (get_network (\<lambda>v. []) failing_transport) = Inl ''Failed to fetch network info''
   \<and> fst (get_nonce (\<lambda>v. []) good_transport sample_account) = Inr (sample_account, Fin 21000)
   \<and> fst (get_balance (\<lambda>w. Inr (JStr ''0.000000000000021'')) good_transport sample_account) =
       Inr (sample_account, JStr ''0.000000000000021'', JStr ''0x5208'')
   \<and> Web3Service_getNetworkInfo (\<lambda>v. NaN)
        (Some (sample_web3\<lparr>w3_getBlockNumber := Inr 9007199254740995\<rparr>)) =
       (Inr \<lparr>ni_chainId = JStr ''0x1f93'', ni_blockNumber = Fin 9007199254740996,
             ni_gasPrice = Fin 1000000000\<rparr>,
        [Web3GetChainId, Web3GetBlockNumber, Web3GetGasPrice])"
proof -
  have h1: "hex_quantity ''0x5208'' = Some 21000"
    by (simp add: hex_quantity_def is_hex_digit_def radix_value_def digit_val_def)
  have h2: "hex_quantity ''0x3b9aca00'' = Some 1000000000"
    by (simp add: hex_quantity_def is_hex_digit_def radix_value_def digit_val_def)
  have p1: "parseInt_value (\<lambda>v. []) (JStr ''0x5208'') = Fin 21000"
    using chain_quantities_become_doubles [where s = "''0x5208''" and v = 21000
        and toStr = "\<lambda>v. []", THEN conjunct2, THEN conjunct1] h1
    by simp
  have p2: "parseInt_value (\<lambda>v. []) (JStr ''0x3b9aca00'') = Fin 1000000000"
    using chain_quantities_become_doubles [where s = "''0x3b9aca00''" and v = 1000000000
        and toStr = "\<lambda>v. []", THEN conjunct2, THEN conjunct1] h2
    by simp
  have p3: "parseInt_value (\<lambda>v. []) (JStr ''0x20000000000003'') = Fin 9007199254740996"
    using chain_quantities_become_doubles [where s = "''0x20000000000003''"
        and v = 9007199254740995 and toStr = "\<lambda>v. []", THEN conjunct1]
      hex_quantity_large(2) to_number_large(2)
    by simp
  have p4: "parseInt_value (\<lambda>v. []) (JStr ''0x40000000000003'') = Fin 18014398509481988"
    using chain_quantities_become_doubles [where s = "''0x40000000000003''"
        and v = 18014398509481987 and toStr = "\<lambda>v. []", THEN conjunct1]
      hex_quantity_large(3) to_number_large(3)
    by simp
  have n1: "Number_value (\<lambda>v. NaN) (JBig 8083) = Fin 8083"
    using chain_quantities_become_doubles [where i = 8083 and toNum = "\<lambda>v. NaN",
        THEN conjunct2, THEN conjunct2, THEN conjunct2, THEN conjunct1]
    by simp
  have n2: "Number_value (\<lambda>v. NaN) (JBig 9007199254740995) = Fin 9007199254740996"
    using chain_quantities_become_doubles [where i = 9007199254740995 and toNum = "\<lambda>v. NaN",
        THEN conjunct2, THEN conjunct2, THEN conjunct1] to_number_large(2)
    by simp
  have n3: "Number_value (\<lambda>v. NaN) (JBig 1000000000) = Fin 1000000000"
    using chain_quantities_become_doubles [where i = 1000000000 and toNum = "\<lambda>v. NaN",
        THEN conjunct2, THEN conjunct2, THEN conjunct2, THEN conjunct1]
    by simp
  have r: "fst (shardeumRPC good_transport ''eth_chainId'' None) = Inr (JStr ''0x5208'')"
    "fst (shardeumRPC good_transport ''eth_blockNumber'' None) = Inr (JStr ''0x5208'')"
    "fst (shardeumRPC good_transport ''eth_gasPrice'' None) = Inr (JStr ''0x3b9aca00'')"
    by (simp_all add: shardeumRPC_def post_for_result_def call_def pure_call_def
        good_transport_def rpc_request_def)
  have g: "get_network (\<lambda>v. []) good_transport =
       (Inr \<lparr>ni_chainId = JStr ''0x5208'', ni_blockNumber = Fin 21000,
             ni_gasPrice = Fin 1000000000\<rparr>,
        [HttpPost (rpc_request SHARDEUM_RPC ''eth_chainId'' (Some [])),
         HttpPost (rpc_request SHARDEUM_RPC ''eth_blockNumber'' (Some [])),
         HttpPost (rpc_request SHARDEUM_RPC ''eth_gasPrice'' (Some []))])"
    using chain_quantities_become_doubles [where axios_post = good_transport
        and c = "JStr ''0x5208''" and bn = "JStr ''0x5208''" and g = "JStr ''0x3b9aca00''"
        and toStr = "\<lambda>v. []", THEN conjunct2, THEN conjunct2, THEN conjunct2, THEN conjunct2,
        THEN conjunct2, THEN conjunct2, THEN conjunct2, THEN conjunct2, THEN conjunct1]
      r p1 p2
    by simp
  have f: "fst (get_network (\<lambda>v. []) failing_transport) = Inl ''Failed to fetch network info''"
    using chain_quantities_become_doubles [where axios_post = failing_transport
        and failed_chain = "Rethrown \<lparr>err_code = JUndefined, err_message = ''Failed to fetch''\<rparr>"
        and toStr = "\<lambda>v. []", THEN conjunct2, THEN conjunct2, THEN conjunct2, THEN conjunct2,
        THEN conjunct2, THEN conjunct2, THEN conjunct2, THEN conjunct2, THEN conjunct2,
        THEN conjunct1]
    by (simp add: shardeumRPC_def post_for_result_def call_def failing_transport_def)
  have w: "Web3Service_getNetworkInfo (\<lambda>v. NaN)
        (Some (sample_web3\<lparr>w3_getBlockNumber := Inr 9007199254740995\<rparr>)) =
       (Inr \<lparr>ni_chainId = JStr ''0x1f93'', ni_blockNumber = Fin 9007199254740996,
             ni_gasPrice = Fin 1000000000\<rparr>,
        [Web3GetChainId, Web3GetBlockNumber, Web3GetGasPrice])"
    using chain_quantities_become_doubles [where toNum = "\<lambda>v. NaN"
        and lib = "sample_web3\<lparr>w3_getBlockNumber := Inr 9007199254740995\<rparr>"
        and cid = 8083 and block = 9007199254740995 and price = "JBig 1000000000",
        THEN conjunct2, THEN conjunct2, THEN conjunct2, THEN conjunct2, THEN conjunct2,
        THEN conjunct2, THEN conjunct2, THEN conjunct2, THEN conjunct2, THEN conjunct2,
        THEN conjunct2, THEN conjunct2, THEN conjunct2, THEN conjunct2, THEN conjunct2,
        THEN conjunct1]
      n3 to_number_large(2)
    by (simp add: sample_web3_def toString16_chain)
  have rest: "fst (get_nonce (\<lambda>v. []) good_transport sample_account) = Inr (sample_account, Fin 21000)
   \<and> fst (get_balance (\<lambda>w. Inr (JStr ''0.000000000000021'')) good_transport sample_account) =
       Inr (sample_account, JStr ''0.000000000000021'', JStr ''0x5208'')"
    using p1
    by (simp add: get_nonce_def get_balance_def shardeumRPC_def post_for_result_def call_def
        pure_call_def good_transport_def rpc_request_def)
  from p1 p3 p4 n1 n2 g f w rest show ?thesis by blast
qed

section \<open>Address validity\<close>




end
